theory Spec2Isabelle
  imports Main "HOL-Library.Char_ord" "HOL-Library.List_Lexorder"
begin

section \<open>Go values used by the example backend\<close>

text \<open>
  A Go \<^verbatim>\<open>string\<close> is a sequence of bytes: it is modelled as \<^typ>\<open>string\<close>
  (a list of 8-bit characters). Byte arithmetic goes through \<^const>\<open>of_char\<close> and
  \<^const>\<open>char_of\<close> on natural numbers; a shift left by \<open>k\<close> is a multiplication by
  \<open>2 ^ k\<close>, a shift right a division, a mask \<open>& (2 ^ k - 1)\<close> a remainder, and
  \<open>|\<close> of values with disjoint bits a sum.

  Errors are values. \<open>Errorf\<close> keeps the format string of \<^verbatim>\<open>fmt.Errorf\<close> as the
  source writes it, with its arguments; the other constructors are the errors of the Go
  libraries and of the collaborators the handlers call.
\<close>

datatype error =
    Errorf string "arg list"
  | CorruptInputError
  | SyntaxError
  | UnmarshalTypeError
  | ErrNoCookie
  | Upstream string
and arg = ArgInt int | ArgErr error | ArgStr string

definition byte :: "nat \<Rightarrow> char" where
  "byte n = char_of n"

subsection \<open>Package strings\<close>

text \<open>
  \<^verbatim>\<open>strings.Index\<close>, \<^verbatim>\<open>strings.Count\<close> and \<^verbatim>\<open>genSplit\<close> (behind
  \<^verbatim>\<open>strings.Split\<close> and \<^verbatim>\<open>strings.SplitN\<close>) for a separator of one byte, which is
  all the handlers use (\<^verbatim>\<open>"."\<close>). \<open>Index\<close> is \<open>None\<close> where Go returns \<open>-1\<close>.
\<close>

fun Index :: "string \<Rightarrow> char \<Rightarrow> nat option" where
  "Index [] sep = None"
| "Index (c # s) sep =
     (if c = sep then Some 0 else (case Index s sep of None \<Rightarrow> None | Some m \<Rightarrow> Some (Suc m)))"

definition Count :: "string \<Rightarrow> char \<Rightarrow> nat" where
  "Count s sep = length (filter (\<lambda>c. c = sep) s)"

text \<open>The loop of \<^verbatim>\<open>genSplit\<close>: \<open>k\<close> is \<open>n - i\<close>, the splits still allowed.\<close>

fun genSplit_loop :: "string \<Rightarrow> char \<Rightarrow> nat \<Rightarrow> string list" where
  "genSplit_loop s sep 0 = [s]"
| "genSplit_loop s sep (Suc k) =
     (case Index s sep of
        None \<Rightarrow> [s]
      | Some m \<Rightarrow> take m s # genSplit_loop (drop (m + 1) s) sep k)"

definition genSplit :: "string \<Rightarrow> char \<Rightarrow> int \<Rightarrow> string list" where
  "genSplit s sep n =
     (if n = 0 then []
      else let n1 = (if n < 0 then int (Count s sep) + 1 else n);
               n2 = (if n1 > int (length s) + 1 then int (length s) + 1 else n1)
           in genSplit_loop s sep (nat (n2 - 1)))"

definition strings_Split :: "string \<Rightarrow> char \<Rightarrow> string list" where
  "strings_Split s sep = genSplit s sep (- 1)"

definition strings_SplitN :: "string \<Rightarrow> char \<Rightarrow> int \<Rightarrow> string list" where
  "strings_SplitN s sep n = genSplit s sep n"

subsection \<open>Package encoding/base64\<close>

text \<open>
  An \<^verbatim>\<open>Encoding\<close> is its 64-character alphabet and its padding character
  (\<open>None\<close> for \<^verbatim>\<open>NoPadding\<close>). Both encodings the handlers use are non-strict.
\<close>

record Encoding =
  encode :: string
  padChar :: "char option"

definition encodeStd :: string where
  "encodeStd = ''ABCDEFGHIJKLMNOPQRSTUVWXYZabcdefghijklmnopqrstuvwxyz0123456789+/''"

definition encodeURL :: string where
  "encodeURL = ''ABCDEFGHIJKLMNOPQRSTUVWXYZabcdefghijklmnopqrstuvwxyz0123456789-_''"

definition StdEncoding :: Encoding where
  "StdEncoding = \<lparr>encode = encodeStd, padChar = Some CHR ''=''\<rparr>"

definition RawURLEncoding :: Encoding where
  "RawURLEncoding = \<lparr>encode = encodeURL, padChar = None\<rparr>"

text \<open>\<^verbatim>\<open>decodeMap[c]\<close>: the index of \<open>c\<close> in the alphabet, \<open>None\<close> for \<^verbatim>\<open>0xff\<close>.\<close>

fun index_of :: "char \<Rightarrow> string \<Rightarrow> nat option" where
  "index_of c [] = None"
| "index_of c (a # as) =
     (if c = a then Some 0 else (case index_of c as of None \<Rightarrow> None | Some i \<Rightarrow> Some (Suc i)))"

definition decodeMap :: "Encoding \<Rightarrow> char \<Rightarrow> nat option" where
  "decodeMap enc c = index_of c (encode enc)"

definition pad :: "Encoding \<Rightarrow> string \<Rightarrow> string" where
  "pad enc p = (case padChar enc of None \<Rightarrow> [] | Some _ \<Rightarrow> p)"

text \<open>
  \<^verbatim>\<open>Encoding.EncodeToString\<close>: three bytes give four characters; a remainder of one
  or two bytes gives two or three characters and the padding.
\<close>

fun EncodeToString :: "Encoding \<Rightarrow> string \<Rightarrow> string" where
  "EncodeToString enc (a # b # c # src) =
     (let val = of_char a * 65536 + of_char b * 256 + of_char c in
        encode enc ! (val div 262144 mod 64) # encode enc ! (val div 4096 mod 64) #
        encode enc ! (val div 64 mod 64) # encode enc ! (val mod 64) #
        EncodeToString enc src)"
| "EncodeToString enc [a, b] =
     (let val = of_char a * 65536 + of_char b * 256 in
        encode enc ! (val div 262144 mod 64) # encode enc ! (val div 4096 mod 64) #
        encode enc ! (val div 64 mod 64) #
        (case padChar enc of None \<Rightarrow> [] | Some p \<Rightarrow> [p]))"
| "EncodeToString enc [a] =
     (let val = of_char a * 65536 in
        encode enc ! (val div 262144 mod 64) # encode enc ! (val div 4096 mod 64) #
        (case padChar enc of None \<Rightarrow> [] | Some p \<Rightarrow> [p, p]))"
| "EncodeToString enc [] = []"

text \<open>
  The bytes of one quantum: \<open>dbuf\<close> holds the \<open>dlen\<close> six-bit values read (missing ones
  count as zero), and \<open>dlen - 1\<close> bytes come out.
\<close>

definition dbuf_at :: "nat list \<Rightarrow> nat \<Rightarrow> nat" where
  "dbuf_at dbuf j = (if j < length dbuf then dbuf ! j else 0)"

definition quantum_bytes :: "nat list \<Rightarrow> string" where
  "quantum_bytes dbuf =
     (let val = dbuf_at dbuf 0 * 262144 + dbuf_at dbuf 1 * 4096 + dbuf_at dbuf 2 * 64 + dbuf_at dbuf 3
      in take (length dbuf - 1) [byte (val div 65536), byte (val div 256), byte val])"

definition is_newline :: "char \<Rightarrow> bool" where
  "is_newline c = (c = CHR 0x0A \<or> c = CHR 0x0D)"

definition skip_newlines :: "string \<Rightarrow> string" where
  "skip_newlines src = dropWhile is_newline src"

text \<open>
  \<^verbatim>\<open>Encoding.DecodeString\<close>: the loop of \<^verbatim>\<open>Decode\<close> over
  \<^verbatim>\<open>decodeQuantum\<close>, as one recursion over the input. \<open>dbuf\<close> is the quantum being
  read. Carriage returns and line feeds are skipped; a padding character ends the input;
  the offset that \<^verbatim>\<open>CorruptInputError\<close> carries is left out.
\<close>

fun decode_loop :: "Encoding \<Rightarrow> nat list \<Rightarrow> string \<Rightarrow> error + string" where
  "decode_loop enc dbuf [] =
     (if dbuf = [] then Inr []
      else if length dbuf = 1 \<or> padChar enc \<noteq> None then Inl CorruptInputError
      else Inr (quantum_bytes dbuf))"
| "decode_loop enc dbuf (c # src) =
     (case decodeMap enc c of
        Some out \<Rightarrow>
          if length dbuf = 3 then
            (case decode_loop enc [] src of
               Inl e \<Rightarrow> Inl e
             | Inr bs \<Rightarrow> Inr (quantum_bytes (dbuf @ [out]) @ bs))
          else decode_loop enc (dbuf @ [out]) src
      | None \<Rightarrow>
          if is_newline c then decode_loop enc dbuf src
          else if Some c \<noteq> padChar enc then Inl CorruptInputError
          else if length dbuf < 2 then Inl CorruptInputError
          else if length dbuf = 2 then
            (case skip_newlines src of
               [] \<Rightarrow> Inl CorruptInputError
             | p # src' \<Rightarrow>
                 if Some p \<noteq> padChar enc then Inl CorruptInputError
                 else if skip_newlines src' \<noteq> [] then Inl CorruptInputError
                 else Inr (quantum_bytes dbuf))
          else if skip_newlines src \<noteq> [] then Inl CorruptInputError
          else Inr (quantum_bytes dbuf))"

definition DecodeString :: "Encoding \<Rightarrow> string \<Rightarrow> error + string" where
  "DecodeString enc s = decode_loop enc [] s"

subsection \<open>Package unicode/utf8\<close>

definition RuneError :: nat where
  "RuneError = 0xFFFD"

definition UTFMax :: nat where
  "UTFMax = 4"

text \<open>
  The table \<^verbatim>\<open>first\<close> with \<^verbatim>\<open>acceptRanges\<close>: a lead byte is ASCII (\<open>AS\<close>),
  invalid (\<open>XX\<close>), or starts a sequence of \<open>sz\<close> bytes whose second byte lies in
  \<open>lo..hi\<close>.
\<close>

datatype first_info = AS | XX | Seq nat nat nat

definition first :: "nat \<Rightarrow> first_info" where
  "first p0 =
     (if p0 < 0x80 then AS
      else if p0 < 0xC2 then XX
      else if p0 < 0xE0 then Seq 2 0x80 0xBF
      else if p0 = 0xE0 then Seq 3 0xA0 0xBF
      else if p0 < 0xED then Seq 3 0x80 0xBF
      else if p0 = 0xED then Seq 3 0x80 0x9F
      else if p0 < 0xF0 then Seq 3 0x80 0xBF
      else if p0 = 0xF0 then Seq 4 0x90 0xBF
      else if p0 < 0xF4 then Seq 4 0x80 0xBF
      else if p0 = 0xF4 then Seq 4 0x80 0x8F
      else XX)"

text \<open>\<^verbatim>\<open>utf8.DecodeRune\<close> (and \<^verbatim>\<open>DecodeRuneInString\<close>): the rune and its width.\<close>

definition DecodeRune :: "string \<Rightarrow> nat \<times> nat" where
  "DecodeRune p =
     (case p of
        [] \<Rightarrow> (RuneError, 0)
      | c0 # _ \<Rightarrow>
          (let p0 = of_char c0 in
           case first p0 of
             AS \<Rightarrow> (p0, 1)
           | XX \<Rightarrow> (RuneError, 1)
           | Seq sz lo hi \<Rightarrow>
               if length p < sz then (RuneError, 1)
               else let b1 = of_char (p ! 1) in
                 if b1 < lo \<or> hi < b1 then (RuneError, 1)
                 else if sz \<le> 2 then (p0 mod 32 * 64 + b1 mod 64, 2)
                 else let b2 = of_char (p ! 2) in
                   if b2 < 0x80 \<or> 0xBF < b2 then (RuneError, 1)
                   else if sz \<le> 3 then (p0 mod 16 * 4096 + b1 mod 64 * 64 + b2 mod 64, 3)
                   else let b3 = of_char (p ! 3) in
                     if b3 < 0x80 \<or> 0xBF < b3 then (RuneError, 1)
                     else (p0 mod 8 * 262144 + b1 mod 64 * 4096 + b2 mod 64 * 64 + b3 mod 64, 4)))"

text \<open>\<^verbatim>\<open>utf8.EncodeRune\<close> / \<^verbatim>\<open>utf8.AppendRune\<close> for a rune that is not negative.\<close>

definition encode3 :: "nat \<Rightarrow> string" where
  "encode3 r = [byte (0xE0 + r div 4096), byte (0x80 + r div 64 mod 64), byte (0x80 + r mod 64)]"

definition EncodeRune :: "nat \<Rightarrow> string" where
  "EncodeRune r =
     (if r \<le> 0x7F then [byte r]
      else if r \<le> 0x7FF then [byte (0xC0 + r div 64), byte (0x80 + r mod 64)]
      else if r > 0x10FFFF \<or> (0xD800 \<le> r \<and> r \<le> 0xDFFF) then encode3 RuneError
      else if r \<le> 0xFFFF then encode3 r
      else [byte (0xF0 + r div 262144), byte (0x80 + r div 4096 mod 64),
            byte (0x80 + r div 64 mod 64), byte (0x80 + r mod 64)])"

text \<open>\<^verbatim>\<open>utf8.ValidString\<close>: no position decodes to the error rune of width one.\<close>

lemma DecodeRune_size: "DecodeRune (c # s) = (r, sz) \<Longrightarrow> sz \<in> {1, 2, 3, 4}"
  by (auto simp add: DecodeRune_def Let_def split: first_info.splits if_splits)

function ValidString :: "string \<Rightarrow> bool" where
  "ValidString [] = True"
| "ValidString (c # s) =
     (case DecodeRune (c # s) of
        (r, sz) \<Rightarrow> \<not> (r = RuneError \<and> sz = 1) \<and> ValidString (drop sz (c # s)))"
  by pat_completeness auto
termination
  by (relation "measure length") (auto dest!: DecodeRune_size [OF sym])

subsection \<open>Package unicode/utf16\<close>

definition IsSurrogate :: "nat \<Rightarrow> bool" where
  "IsSurrogate r = (0xD800 \<le> r \<and> r < 0xE000)"

text \<open>\<^verbatim>\<open>utf16.DecodeRune\<close>; the second argument is \<open>None\<close> where Go passes \<open>-1\<close>.\<close>

definition utf16_DecodeRune :: "nat \<Rightarrow> nat option \<Rightarrow> nat" where
  "utf16_DecodeRune r1 r2 =
     (case r2 of
        None \<Rightarrow> RuneError
      | Some r2' \<Rightarrow>
          if 0xD800 \<le> r1 \<and> r1 < 0xDC00 \<and> 0xDC00 \<le> r2' \<and> r2' < 0xE000
          then (r1 - 0xD800) * 1024 + (r2' - 0xDC00) + 0x10000
          else RuneError)"

subsection \<open>Package encoding/json: strings\<close>

definition dquote :: char where
  "dquote = CHR 0x22"

definition backslash :: char where
  "backslash = CHR 0x5C"

definition hex :: string where
  "hex = ''0123456789abcdef''"

text \<open>
  \<^verbatim>\<open>htmlSafeSet\<close>: the ASCII bytes that need no escape when HTML escaping is on,
  as it is for \<^verbatim>\<open>json.Marshal\<close>.
\<close>

definition htmlSafeSet :: "char \<Rightarrow> bool" where
  "htmlSafeSet c =
     (0x20 \<le> (of_char c :: nat) \<and> (of_char c :: nat) < 0x80 \<and>
      c \<noteq> dquote \<and> c \<noteq> CHR ''&'' \<and> c \<noteq> CHR ''<'' \<and> c \<noteq> CHR ''>'' \<and> c \<noteq> backslash)"

text \<open>
  The loop of \<^verbatim>\<open>encodeState.string\<close>. The source copies the unescaped stretches
  \<^verbatim>\<open>s[start:i]\<close> in one piece; here every step appends what it passes over.
  A byte that does not start a valid UTF-8 sequence becomes \<^verbatim>\<open>\ufffd\<close>.
\<close>

function encodeState_string_loop :: "string \<Rightarrow> string" where
  "encodeState_string_loop [] = []"
| "encodeState_string_loop (c # s) =
     (let b = (of_char c :: nat) in
      if b < 0x80 then
        (if htmlSafeSet c then c # encodeState_string_loop s
         else backslash #
           (if c = backslash \<or> c = dquote then [c]
            else if c = CHR 0x0A then ''n''
            else if c = CHR 0x0D then ''r''
            else if c = CHR 0x09 then ''t''
            else ''u00'' @ [hex ! (b div 16), hex ! (b mod 16)]) @
           encodeState_string_loop s)
      else
        (case DecodeRune (c # s) of
           (r, sz) \<Rightarrow>
             if r = RuneError \<and> sz = 1 then
               backslash # ''ufffd'' @ encodeState_string_loop (drop sz (c # s))
             else if r = 0x2028 \<or> r = 0x2029 then
               backslash # ''u202'' @ [hex ! (r mod 16)] @ encodeState_string_loop (drop sz (c # s))
             else take sz (c # s) @ encodeState_string_loop (drop sz (c # s))))"
  by pat_completeness auto
termination
  by (relation "measure length") (auto dest!: DecodeRune_size [OF sym])

definition encodeState_string :: "string \<Rightarrow> string" where
  "encodeState_string s = dquote # encodeState_string_loop s @ [dquote]"

definition hexval :: "char \<Rightarrow> nat option" where
  "hexval c =
     (let b = (of_char c :: nat) in
      if 0x30 \<le> b \<and> b \<le> 0x39 then Some (b - 0x30)
      else if 0x61 \<le> b \<and> b \<le> 0x66 then Some (b - 0x61 + 10)
      else if 0x41 \<le> b \<and> b \<le> 0x46 then Some (b - 0x41 + 10)
      else None)"

text \<open>\<^verbatim>\<open>getu4\<close>: the value of a leading \<^verbatim>\<open>\uXXXX\<close>, \<open>None\<close> for \<open>-1\<close>.\<close>

definition getu4 :: "string \<Rightarrow> nat option" where
  "getu4 s =
     (case s of
        b # u # h1 # h2 # h3 # h4 # _ \<Rightarrow>
          if b \<noteq> backslash \<or> u \<noteq> CHR ''u'' then None
          else (case (hexval h1, hexval h2, hexval h3, hexval h4) of
                  (Some d1, Some d2, Some d3, Some d4) \<Rightarrow> Some (((d1 * 16 + d2) * 16 + d3) * 16 + d4)
                | _ \<Rightarrow> None)
      | _ \<Rightarrow> None)"

definition emit :: "string \<Rightarrow> (string \<times> string) option \<Rightarrow> (string \<times> string) option" where
  "emit bs res = (case res of None \<Rightarrow> None | Some (t, rest) \<Rightarrow> Some (bs @ t, rest))"

text \<open>
  A string literal, read from just after its opening quote: the scanner's states
  \<^verbatim>\<open>stateInString\<close>, \<^verbatim>\<open>stateInStringEsc\<close>, \<^verbatim>\<open>stateInStringEscU\<close> together with
  \<^verbatim>\<open>unquoteBytes\<close>. The result is the decoded text and the input after the closing
  quote; \<open>None\<close> is a syntax error.
\<close>

function unquote_loop :: "string \<Rightarrow> (string \<times> string) option" where
  "unquote_loop [] = None"
| "unquote_loop (c # s) =
     (if c = dquote then Some ([], s)
      else if c = backslash then
        (case s of
           [] \<Rightarrow> None
         | e # s' \<Rightarrow>
             if e = dquote \<or> e = backslash \<or> e = CHR ''/'' then emit [e] (unquote_loop s')
             else if e = CHR ''b'' then emit [CHR 0x08] (unquote_loop s')
             else if e = CHR ''f'' then emit [CHR 0x0C] (unquote_loop s')
             else if e = CHR ''n'' then emit [CHR 0x0A] (unquote_loop s')
             else if e = CHR ''r'' then emit [CHR 0x0D] (unquote_loop s')
             else if e = CHR ''t'' then emit [CHR 0x09] (unquote_loop s')
             else if e = CHR ''u'' then
               (case getu4 (c # s) of
                  None \<Rightarrow> None
                | Some rr \<Rightarrow>
                    if IsSurrogate rr then
                      (let dec = utf16_DecodeRune rr (getu4 (drop 4 s')) in
                       if dec \<noteq> RuneError then emit (EncodeRune dec) (unquote_loop (drop 10 s'))
                       else emit (EncodeRune RuneError) (unquote_loop (drop 4 s')))
                    else emit (EncodeRune rr) (unquote_loop (drop 4 s')))
             else None)
      else if (of_char c :: nat) < 0x20 then None
      else if (of_char c :: nat) < 0x80 then emit [c] (unquote_loop s)
      else
        (case DecodeRune (c # s) of
           (rr, sz) \<Rightarrow> emit (EncodeRune rr) (unquote_loop (drop sz (c # s)))))"
  by pat_completeness auto
termination
  by (relation "measure length") (auto dest!: DecodeRune_size [OF sym])

subsection \<open>Package encoding/json: values\<close>

datatype json =
    JNull
  | JBool bool
  | JNumber string
  | JString string
  | JArray "json list"
  | JObject "(string \<times> json) list"

definition isSpace :: "char \<Rightarrow> bool" where
  "isSpace c = (c = CHR '' '' \<or> c = CHR 0x09 \<or> c = CHR 0x0D \<or> c = CHR 0x0A)"

definition skip_space :: "string \<Rightarrow> string" where
  "skip_space s = dropWhile isSpace s"

definition isDigit :: "char \<Rightarrow> bool" where
  "isDigit c = (0x30 \<le> (of_char c :: nat) \<and> (of_char c :: nat) \<le> 0x39)"

text \<open>
  The scanner's number states (\<^verbatim>\<open>stateNeg\<close>, \<^verbatim>\<open>state0\<close>, \<^verbatim>\<open>state1\<close>,
  \<^verbatim>\<open>stateDot\<close>, \<^verbatim>\<open>stateE\<close>, ...): the literal and the input after it.
\<close>

definition scan_frac :: "string \<Rightarrow> (string \<times> string) option" where
  "scan_frac s =
     (case s of
        c # r \<Rightarrow>
          if c = CHR ''.'' then
            (if takeWhile isDigit r = [] then None
             else Some (c # takeWhile isDigit r, dropWhile isDigit r))
          else Some ([], s)
      | [] \<Rightarrow> Some ([], s))"

definition scan_exp :: "string \<Rightarrow> (string \<times> string) option" where
  "scan_exp s =
     (case s of
        c # r \<Rightarrow>
          if c = CHR ''e'' \<or> c = CHR ''E'' then
            (let sign = (case r of x # _ \<Rightarrow> if x = CHR ''+'' \<or> x = CHR ''-'' then [x] else [] | [] \<Rightarrow> []);
                 r' = drop (length sign) r
             in if takeWhile isDigit r' = [] then None
                else Some (c # sign @ takeWhile isDigit r', dropWhile isDigit r'))
          else Some ([], s)
      | [] \<Rightarrow> Some ([], s))"

definition scan_int :: "string \<Rightarrow> (string \<times> string) option" where
  "scan_int s =
     (case s of
        c # r \<Rightarrow>
          if c = CHR ''0'' then Some ([c], r)
          else if isDigit c then Some (c # takeWhile isDigit r, dropWhile isDigit r)
          else None
      | [] \<Rightarrow> None)"

definition scan_number :: "string \<Rightarrow> (string \<times> string) option" where
  "scan_number s =
     (let neg = (case s of c # _ \<Rightarrow> if c = CHR ''-'' then [c] else [] | [] \<Rightarrow> []) in
      case scan_int (drop (length neg) s) of
        None \<Rightarrow> None
      | Some (i, r1) \<Rightarrow>
          (case scan_frac r1 of
             None \<Rightarrow> None
           | Some (f, r2) \<Rightarrow>
               (case scan_exp r2 of
                  None \<Rightarrow> None
                | Some (e, r3) \<Rightarrow> Some (neg @ i @ f @ e, r3))))"

definition scan_literal :: "string \<Rightarrow> json \<Rightarrow> string \<Rightarrow> (json \<times> string) option" where
  "scan_literal lit v s =
     (if take (length lit) s = lit then Some (v, drop (length lit) s) else None)"

definition maxNestingDepth :: nat where
  "maxNestingDepth = 10000"

text \<open>
  A JSON value, as the scanner accepts it and the decoder reads it. The first argument
  bounds the number of nested calls (every call but the first follows a consumed
  character, and \<open>json_parse\<close> gives two calls per character of the input); the second is
  the nesting depth, bounded by \<^verbatim>\<open>maxNestingDepth\<close>. \<open>None\<close> is a syntax error.
\<close>

fun parse_value :: "nat \<Rightarrow> nat \<Rightarrow> string \<Rightarrow> (json \<times> string) option"
  and parse_elements :: "nat \<Rightarrow> nat \<Rightarrow> string \<Rightarrow> (json list \<times> string) option"
  and parse_members :: "nat \<Rightarrow> nat \<Rightarrow> string \<Rightarrow> ((string \<times> json) list \<times> string) option"
where
  "parse_value 0 d s = None"
| "parse_value (Suc n) d s =
     (case skip_space s of
        [] \<Rightarrow> None
      | c # r \<Rightarrow>
          if c = CHR ''{'' then
            (if maxNestingDepth \<le> d then None
             else case skip_space r of
                    [] \<Rightarrow> None
                  | c' # r' \<Rightarrow>
                      if c' = CHR ''}'' then Some (JObject [], r')
                      else (case parse_members n (Suc d) r of
                              None \<Rightarrow> None
                            | Some (ms, r'') \<Rightarrow> Some (JObject ms, r'')))
          else if c = CHR ''['' then
            (if maxNestingDepth \<le> d then None
             else case skip_space r of
                    [] \<Rightarrow> None
                  | c' # r' \<Rightarrow>
                      if c' = CHR '']'' then Some (JArray [], r')
                      else (case parse_elements n (Suc d) r of
                              None \<Rightarrow> None
                            | Some (vs, r'') \<Rightarrow> Some (JArray vs, r'')))
          else if c = dquote then
            (case unquote_loop r of
               None \<Rightarrow> None
             | Some (t, r') \<Rightarrow> Some (JString t, r'))
          else if c = CHR ''-'' \<or> isDigit c then
            (case scan_number (c # r) of
               None \<Rightarrow> None
             | Some (lit, r') \<Rightarrow> Some (JNumber lit, r'))
          else if c = CHR ''t'' then scan_literal ''true'' (JBool True) (c # r)
          else if c = CHR ''f'' then scan_literal ''false'' (JBool False) (c # r)
          else if c = CHR ''n'' then scan_literal ''null'' JNull (c # r)
          else None)"
| "parse_elements 0 d s = None"
| "parse_elements (Suc n) d s =
     (case parse_value n d s of
        None \<Rightarrow> None
      | Some (v, r) \<Rightarrow>
          (case skip_space r of
             [] \<Rightarrow> None
           | c # r' \<Rightarrow>
               if c = CHR '']'' then Some ([v], r')
               else if c = CHR '','' then
                 (case parse_elements n d r' of
                    None \<Rightarrow> None
                  | Some (vs, r'') \<Rightarrow> Some (v # vs, r''))
               else None))"
| "parse_members 0 d s = None"
| "parse_members (Suc n) d s =
     (case skip_space s of
        [] \<Rightarrow> None
      | q # r \<Rightarrow>
          if q \<noteq> dquote then None
          else (case unquote_loop r of
                  None \<Rightarrow> None
                | Some (key, r1) \<Rightarrow>
                    (case skip_space r1 of
                       [] \<Rightarrow> None
                     | c # r2 \<Rightarrow>
                         if c \<noteq> CHR '':'' then None
                         else (case parse_value n d r2 of
                                 None \<Rightarrow> None
                               | Some (v, r3) \<Rightarrow>
                                   (case skip_space r3 of
                                      [] \<Rightarrow> None
                                    | c' # r4 \<Rightarrow>
                                        if c' = CHR ''}'' then Some ([(key, v)], r4)
                                        else if c' = CHR '','' then
                                          (case parse_members n d r4 of
                                             None \<Rightarrow> None
                                           | Some (ms, r5) \<Rightarrow> Some ((key, v) # ms, r5))
                                        else None)))))"

text \<open>\<^verbatim>\<open>checkValid\<close>: one value, then nothing but white space.\<close>

definition json_parse :: "string \<Rightarrow> json option" where
  "json_parse s =
     (case parse_value (2 * length s + 2) 0 s of
        None \<Rightarrow> None
      | Some (v, rest) \<Rightarrow> if skip_space rest = [] then Some v else None)"

text \<open>
  Decoding into a struct whose fields are all strings. \<open>names\<close> are the fields' JSON
  names in declaration order and \<open>vals\<close> their current values. A key selects the field
  of that exact name, else the first field that \<open>equalFold\<close> (the library's
  case-insensitive match over Unicode, a parameter here) accepts; other keys are skipped.
  A string sets the field, \<^verbatim>\<open>null\<close> leaves it, any other value is an
  \<^verbatim>\<open>UnmarshalTypeError\<close>, reported after the whole object has been read.
\<close>

fun first_index :: "('a \<Rightarrow> bool) \<Rightarrow> 'a list \<Rightarrow> nat option" where
  "first_index P [] = None"
| "first_index P (x # xs) =
     (if P x then Some 0 else (case first_index P xs of None \<Rightarrow> None | Some i \<Rightarrow> Some (Suc i)))"

definition field_index :: "(string \<Rightarrow> string \<Rightarrow> bool) \<Rightarrow> string list \<Rightarrow> string \<Rightarrow> nat option" where
  "field_index equalFold names key =
     (case first_index (\<lambda>name. name = key) names of
        Some i \<Rightarrow> Some i
      | None \<Rightarrow> first_index (\<lambda>name. equalFold name key) names)"

fun assign_fields ::
  "(string \<Rightarrow> string \<Rightarrow> bool) \<Rightarrow> string list \<Rightarrow> (string \<times> json) list \<Rightarrow> string list \<times> bool
     \<Rightarrow> string list \<times> bool" where
  "assign_fields equalFold names [] acc = acc"
| "assign_fields equalFold names ((key, v) # ms) (vals, failed) =
     (case field_index equalFold names key of
        None \<Rightarrow> assign_fields equalFold names ms (vals, failed)
      | Some i \<Rightarrow>
          (case v of
             JString t \<Rightarrow> assign_fields equalFold names ms (vals[i := t], failed)
           | JNull \<Rightarrow> assign_fields equalFold names ms (vals, failed)
           | _ \<Rightarrow> assign_fields equalFold names ms (vals, True)))"

definition unmarshal_strings ::
  "(string \<Rightarrow> string \<Rightarrow> bool) \<Rightarrow> string list \<Rightarrow> string list \<Rightarrow> string \<Rightarrow> error + string list" where
  "unmarshal_strings equalFold names vals data =
     (case json_parse data of
        None \<Rightarrow> Inl SyntaxError
      | Some JNull \<Rightarrow> Inr vals
      | Some (JObject ms) \<Rightarrow>
          (case assign_fields equalFold names ms (vals, False) of
             (vals', failed) \<Rightarrow> if failed then Inl UnmarshalTypeError else Inr vals')
      | Some _ \<Rightarrow> Inl UnmarshalTypeError)"

text \<open>The encoding of a struct of strings: its members in declaration order.\<close>

fun marshal_members :: "(string \<times> string) list \<Rightarrow> string" where
  "marshal_members [] = []"
| "marshal_members [(name, v)] = dquote # name @ dquote # CHR '':'' # v"
| "marshal_members ((name, v) # ms) = dquote # name @ dquote # CHR '':'' # v @ CHR '','' # marshal_members ms"

definition marshal_object :: "(string \<times> string) list \<Rightarrow> string" where
  "marshal_object ms = CHR ''{'' # marshal_members ms @ ''}''"

section \<open>The HTTP server as the handlers see it\<close>

text \<open>
  \<^verbatim>\<open>url.Values\<close> is a map from a key to its values; \<^verbatim>\<open>Values.Get\<close> is the first
  value, or the empty string (also on a nil map).
\<close>

type_synonym Values = "string \<rightharpoonup> string list"

definition Values_Get :: "Values \<Rightarrow> string \<Rightarrow> string" where
  "Values_Get v key =
     (case v key of
        None \<Rightarrow> []
      | Some vs \<Rightarrow> (case vs of [] \<Rightarrow> [] | x # _ \<Rightarrow> x))"

text \<open>
  The request: \<open>Form\<close> is the field \<^verbatim>\<open>r.Form\<close>, which net/http fills only when
  \<^verbatim>\<open>ParseForm\<close> is called and which is nil (the empty map) before; \<open>URL_Query\<close> is
  \<^verbatim>\<open>r.URL.Query()\<close>; \<open>Cookies\<close> are the name and value pairs of the Cookie header,
  in order.
\<close>

record Request =
  Form :: Values
  URL_Query :: Values
  Cookies :: "(string \<times> string) list"

definition Request_Cookie :: "Request \<Rightarrow> string \<Rightarrow> error + string" where
  "Request_Cookie r name =
     (case map_of (Cookies r) name of
        None \<Rightarrow> Inl ErrNoCookie
      | Some v \<Rightarrow> Inr v)"

text \<open>
  \<^verbatim>\<open>http.Cookie\<close>, with the fields a server sets: times and durations in nanoseconds,
  as in \<open>Hour\<close> (the fields \<^verbatim>\<open>Domain\<close>, \<^verbatim>\<open>SameSite\<close> and those for reading a
  cookie are left out).
\<close>

record Cookie =
  Name :: string
  Value :: string
  Path :: string
  Expires :: int
  MaxAge :: int
  Secure :: bool
  HttpOnly :: bool

text \<open>
  The token characters of \<^verbatim>\<open>httpguts.isTokenTable\<close>, an array of 127 entries:
  \<^verbatim>\<open>! # $ % & ' * + - . ^ _ ` | ~\<close>, the digits and the ASCII letters.
\<close>

definition isTokenTable :: "nat \<Rightarrow> bool" where
  "isTokenTable i =
     (i \<in> {0x21, 0x23, 0x24, 0x25, 0x26, 0x27, 0x2A, 0x2B, 0x2D, 0x2E, 0x5E, 0x5F, 0x60, 0x7C, 0x7E} \<or>
      (0x30 \<le> i \<and> i \<le> 0x39) \<or> (0x41 \<le> i \<and> i \<le> 0x5A) \<or> (0x61 \<le> i \<and> i \<le> 0x7A))"

definition IsTokenRune :: "nat \<Rightarrow> bool" where
  "IsTokenRune r = (r < 127 \<and> isTokenTable r)"

definition isNotToken :: "nat \<Rightarrow> bool" where
  "isNotToken r = (\<not> IsTokenRune r)"

text \<open>
  \<^verbatim>\<open>strings.IndexFunc\<close>: the byte index of the first rune that satisfies \<open>f\<close>, or
  \<open>-1\<close>; the loop ranges over the runes of the string, the fourth argument is the
  index reached.
\<close>

function indexFunc :: "string \<Rightarrow> (nat \<Rightarrow> bool) \<Rightarrow> bool \<Rightarrow> nat \<Rightarrow> int" where
  "indexFunc [] f truth i = - 1"
| "indexFunc (c # s) f truth i =
     (case DecodeRune (c # s) of
        (r, sz) \<Rightarrow> if f r = truth then int i else indexFunc (drop sz (c # s)) f truth (i + sz))"
  by pat_completeness auto
termination
  by (relation "measure (\<lambda>(s, f, truth, i). length s)") (auto dest!: DecodeRune_size [OF sym])

definition strings_IndexFunc :: "string \<Rightarrow> (nat \<Rightarrow> bool) \<Rightarrow> int" where
  "strings_IndexFunc s f = indexFunc s f True 0"

definition isCookieNameValid :: "string \<Rightarrow> bool" where
  "isCookieNameValid raw = (if raw = [] then False else strings_IndexFunc raw isNotToken < 0)"

text \<open>
  The response writer: the headers set, the cookies for which \<^verbatim>\<open>http.SetCookie\<close> adds a
  \<^verbatim>\<open>Set-Cookie\<close> header (the rendering of a cookie as the header value is the
  library's), the status (\<open>0\<close> until it is written), the body, and the target handed
  to \<^verbatim>\<open>http.Redirect\<close> (the \<^verbatim>\<open>Location\<close> header and the short HTML body the library
  derives from it are left out).
\<close>

record ResponseWriter =
  Header :: "string \<rightharpoonup> string"
  SetCookies :: "Cookie list"
  Status :: nat
  Body :: string
  Redirect :: "string option"

definition NewResponseWriter :: "ResponseWriter" where
  "NewResponseWriter = \<lparr>Header = Map.empty, SetCookies = [], Status = 0, Body = [], Redirect = None\<rparr>"

definition StatusFound :: nat where
  "StatusFound = 302"

definition StatusBadRequest :: nat where
  "StatusBadRequest = 400"

definition StatusInternalServerError :: nat where
  "StatusInternalServerError = 500"

definition Header_Set :: "string \<Rightarrow> string \<Rightarrow> ResponseWriter \<Rightarrow> ResponseWriter" where
  "Header_Set k v w = w\<lparr>Header := (Header w)(k \<mapsto> v)\<rparr>"

definition WriteHeader :: "nat \<Rightarrow> ResponseWriter \<Rightarrow> ResponseWriter" where
  "WriteHeader code w = (if Status w = 0 then w\<lparr>Status := code\<rparr> else w)"

definition Write :: "string \<Rightarrow> ResponseWriter \<Rightarrow> ResponseWriter" where
  "Write bs w = (let w' = WriteHeader 200 w in w'\<lparr>Body := Body w' @ bs\<rparr>)"

text \<open>\<^verbatim>\<open>http.Error\<close>: plain text headers, the status, the message and a newline.\<close>

definition http_Error :: "string \<Rightarrow> nat \<Rightarrow> ResponseWriter \<Rightarrow> ResponseWriter" where
  "http_Error msg code w =
     Write (msg @ [CHR 0x0A])
       (WriteHeader code
          (Header_Set ''X-Content-Type-Options'' ''nosniff''
             (Header_Set ''Content-Type'' ''text/plain; charset=utf-8'' w)))"

definition http_Redirect :: "string \<Rightarrow> nat \<Rightarrow> ResponseWriter \<Rightarrow> ResponseWriter" where
  "http_Redirect url code w = WriteHeader code (w\<lparr>Redirect := Some url\<rparr>)"

text \<open>
  \<^verbatim>\<open>http.SetCookie\<close> adds the header only if \<^verbatim>\<open>cookie.String()\<close> is not empty.
  \<^verbatim>\<open>Cookie.String\<close> returns the empty string when the name of the cookie is not
  valid (or the cookie is nil, which a \<open>Cookie\<close> here never is), and a text that begins
  with the name otherwise: a cookie with an invalid name is dropped without a word.
\<close>

definition http_SetCookie :: "Cookie \<Rightarrow> ResponseWriter \<Rightarrow> ResponseWriter" where
  "http_SetCookie c w =
     (if isCookieNameValid (Name c) then w\<lparr>SetCookies := SetCookies w @ [c]\<rparr> else w)"

section \<open>The data of the handshake\<close>

text \<open>
  \<^verbatim>\<open>resources.AuthCode\<close> and \<^verbatim>\<open>resources.AuthResponse\<close> (package
  \<^verbatim>\<open>kubernetes/resources\<close>) and \<^verbatim>\<open>cookie.SessionState\<close> (package \<^verbatim>\<open>cookie\<close>) are
  declared outside the files at hand; their fields are the ones the handlers' struct
  literals name. \<open>Token\<close> is the \<^verbatim>\<open>oauth2.Token\<close> of the exchange; \<open>Extra_id_token\<close> is
  \<^verbatim>\<open>token.Extra("id_token").(string)\<close>, \<open>None\<close> when the assertion fails. Times are
  integers, durations nanoseconds.
\<close>

record AuthCode =
  RedirectURL :: string
  SessionID :: string

record Token =
  AccessToken :: string
  RefreshToken :: string
  Expiry :: int
  Extra_id_token :: "string option"

record SessionState =
  CreatedAt :: int
  ExpiresOn :: int
  AccessToken :: string
  IDToken :: string
  RefreshToken :: string
  RedirectURL :: string
  SessionID :: string

record GroupResource =
  Group :: string
  Resource :: string

record AuthResponse =
  SessionID :: string
  ID :: string
  Kubeconfig :: string
  Group :: string
  Resource :: string
  Export :: string

text \<open>The anonymous struct of \<^verbatim>\<open>handleBind\<close>, with the tags \<^verbatim>\<open>sub\<close> and \<^verbatim>\<open>iss\<close>.\<close>

record idToken =
  Subject :: string
  Issuer :: string

definition Hour :: int where
  "Hour = 3600000000000"

text \<open>
  Modelled from the spec: the JSON names of \<^verbatim>\<open>resources.AuthCode\<close>, whose declaration
  is not in the files at hand. The spec gives the state as the JSON
  \<^verbatim>\<open>{"RedirectURL":"...","SessionID":"..."}\<close>. \<^verbatim>\<open>json.Marshal\<close> of a struct of
  strings returns no error.
\<close>

definition AuthCode_names :: "string list" where
  "AuthCode_names = [''RedirectURL'', ''SessionID'']"

definition json_Marshal_AuthCode :: "AuthCode \<Rightarrow> error + string" where
  "json_Marshal_AuthCode code =
     Inr (marshal_object
           (zip AuthCode_names
              [encodeState_string (AuthCode.RedirectURL code),
               encodeState_string (AuthCode.SessionID code)]))"

definition json_Unmarshal_AuthCode ::
  "(string \<Rightarrow> string \<Rightarrow> bool) \<Rightarrow> string \<Rightarrow> AuthCode \<Rightarrow> error + AuthCode" where
  "json_Unmarshal_AuthCode equalFold data v =
     (case unmarshal_strings equalFold AuthCode_names
             [AuthCode.RedirectURL v, AuthCode.SessionID v] data of
        Inl err \<Rightarrow> Inl err
      | Inr vals \<Rightarrow> Inr \<lparr>AuthCode.RedirectURL = vals ! 0, AuthCode.SessionID = vals ! 1\<rparr>)"

definition json_Unmarshal_idToken ::
  "(string \<Rightarrow> string \<Rightarrow> bool) \<Rightarrow> string \<Rightarrow> idToken \<Rightarrow> error + idToken" where
  "json_Unmarshal_idToken equalFold data v =
     (case unmarshal_strings equalFold [''sub'', ''iss''] [Subject v, Issuer v] data of
        Inl err \<Rightarrow> Inl err
      | Inr vals \<Rightarrow> Inr \<lparr>Subject = vals ! 0, Issuer = vals ! 1\<rparr>)"

text \<open>
  Modelled from the spec: the JSON shape of \<^verbatim>\<open>resources.AuthResponse\<close>, whose
  declaration is not in the files at hand: the fields under their own names, the
  credential bundle as bytes, which \<^verbatim>\<open>json.Marshal\<close> writes in standard base64.
\<close>

definition json_Marshal_AuthResponse :: "AuthResponse \<Rightarrow> error + string" where
  "json_Marshal_AuthResponse a =
     Inr (marshal_object
           [(''SessionID'', encodeState_string (AuthResponse.SessionID a)),
            (''ID'', encodeState_string (ID a)),
            (''Kubeconfig'', dquote # EncodeToString StdEncoding (Kubeconfig a) @ [dquote]),
            (''Group'', encodeState_string (AuthResponse.Group a)),
            (''Resource'', encodeState_string (AuthResponse.Resource a)),
            (''Export'', encodeState_string (Export a))])"

section \<open>The handlers\<close>

text \<open>
  The \<^verbatim>\<open>handler\<close> struct with what its methods reach through it, and the library and
  collaborator calls whose code is elsewhere, as parameters:
  \<^item> \<open>oidc_AuthCodeURL scopes state\<close> is \<^verbatim>\<open>h.oidc.OIDCProviderConfig(scopes).AuthCodeURL(state)\<close>,
    \<open>oidc_Exchange code\<close> is \<^verbatim>\<open>h.oidc.OIDCProviderConfig(nil).Exchange(ctx, code)\<close>;
  \<^item> \<open>apiextensionsLister_List\<close> is the listing of all resource definitions, \<open>crd_Name\<close>
    the name of one, \<open>resourcesTemplate_Execute\<close> the rendering of the page;
  \<^item> \<open>kubeManager_HandleResources subject resource group\<close> is the credential minter;
  \<^item> \<open>SessionState_Encode\<close>, \<open>cookie_Decode\<close> and \<open>cookie_MakeCookie\<close> are package
    \<^verbatim>\<open>cookie\<close>;
  \<^item> \<open>url_Parse\<close> is \<^verbatim>\<open>url.Parse\<close>, and \<open>url_String_with u k v\<close> is \<^verbatim>\<open>u.String()\<close>
    after \<^verbatim>\<open>values := u.Query(); values.Add(k, v); u.RawQuery = values.Encode()\<close>;
  \<^item> \<open>time_Now\<close> is the clock, \<open>expires_epoch\<close> the text of
    \<^verbatim>\<open>time.Unix(0, 0).Format(time.RFC1123)\<close>, \<open>error_Error\<close> the text of an error,
    \<open>Sprintf_q\<close> the \<^verbatim>\<open>%q\<close> rendering of form values, \<open>equalFold\<close> the JSON decoder's
    case-insensitive match of a field name and a key.
\<close>

record ('u, 'crd) handler =
  oidc_AuthCodeURL :: "string list \<Rightarrow> string \<Rightarrow> string"
  oidc_Exchange :: "string \<Rightarrow> error + Token"
  testingAutoSelect :: string
  apiextensionsLister_List :: "error + 'crd list"
  crd_Name :: "'crd \<Rightarrow> string"
  resourcesTemplate_Execute :: "string \<Rightarrow> 'crd list \<Rightarrow> error + string"
  kubeManager_HandleResources :: "string \<Rightarrow> string \<Rightarrow> string \<Rightarrow> error + string"
  SessionState_Encode :: "SessionState \<Rightarrow> error + string"
  cookie_Decode :: "string \<Rightarrow> error + SessionState"
  cookie_MakeCookie :: "Request \<Rightarrow> string \<Rightarrow> string \<Rightarrow> int \<Rightarrow> Cookie"
  url_Parse :: "string \<Rightarrow> error + 'u"
  url_String_with :: "'u \<Rightarrow> string \<Rightarrow> string \<Rightarrow> string"
  time_Now :: int
  expires_epoch :: string
  error_Error :: "error \<Rightarrow> string"
  Sprintf_q :: "Values \<Rightarrow> string"
  equalFold :: "string \<Rightarrow> string \<Rightarrow> bool"

subsection \<open>AddRoutes\<close>

text \<open>
  The routes, each for the method GET. A gorilla/mux route whose template has no
  variable matches the request path exactly.
\<close>

datatype handlerFunc =
  handleServiceExport_route | handleResources_route | handleBind_route
  | handleAuthorize_route | handleCallback_route

definition AddRoutes :: "(string \<times> handlerFunc) list" where
  "AddRoutes =
     [(''/export'', handleServiceExport_route),
      (''/resources'', handleResources_route),
      (''/bind'', handleBind_route),
      (''/authorize'', handleAuthorize_route),
      (''/callback'', handleCallback_route)]"

definition Router_Match :: "string \<Rightarrow> handlerFunc option" where
  "Router_Match path = map_of AddRoutes path"

subsection \<open>prepareNoCache\<close>

definition prepareNoCache :: "('u, 'crd) handler \<Rightarrow> ResponseWriter \<Rightarrow> ResponseWriter" where
  "prepareNoCache h w =
     Header_Set ''X-Accel-Expires'' ''0''
       (Header_Set ''Cache-Control'' ''no-cache, no-store, must-revalidate, max-age=0''
          (Header_Set ''Expires'' (expires_epoch h) w))"

subsection \<open>handleAuthorize\<close>

definition handleAuthorize ::
  "('u, 'crd) handler \<Rightarrow> ResponseWriter \<Rightarrow> Request \<Rightarrow> ResponseWriter" where
  "handleAuthorize h w r =
     (let scopes = [''openid'', ''profile'', ''email'', ''offline_access''];
          code = \<lparr>AuthCode.RedirectURL = Values_Get (URL_Query r) ''u'',
                  AuthCode.SessionID = Values_Get (URL_Query r) ''s''\<rparr>
      in
      if AuthCode.RedirectURL code = [] \<or> AuthCode.SessionID code = [] then
        http_Error ''missing redirect_url or session_id'' StatusBadRequest w
      else
        (case json_Marshal_AuthCode code of
           Inl err \<Rightarrow> http_Error (error_Error h err) StatusInternalServerError w
         | Inr dataCode \<Rightarrow>
             (let encoded = EncodeToString StdEncoding dataCode;
                  authURL = oidc_AuthCodeURL h scopes encoded
              in http_Redirect authURL StatusFound w)))"

subsection \<open>parseJWT\<close>

definition parseJWT :: "string \<Rightarrow> error + string" where
  "parseJWT p =
     (let parts = strings_Split p CHR ''.'' in
      if length parts < 2 then
        Inl (Errorf ''oidc: malformed jwt, expected 3 parts got %d'' [ArgInt (int (length parts))])
      else
        (case DecodeString RawURLEncoding (parts ! 1) of
           Inl err \<Rightarrow> Inl (Errorf ''oidc: malformed jwt payload: %v'' [ArgErr err])
         | Inr payload \<Rightarrow> Inr payload))"

subsection \<open>handleCallback\<close>

text \<open>
  The state, decoded the way the callback does it: standard base64, then JSON into a
  zero \<^verbatim>\<open>AuthCode\<close>.
\<close>

definition callback_authCode :: "(string \<Rightarrow> string \<Rightarrow> bool) \<Rightarrow> string \<Rightarrow> error + AuthCode" where
  "callback_authCode eqf state =
     (case DecodeString StdEncoding state of
        Inl err \<Rightarrow> Inl err
      | Inr decode \<Rightarrow>
          json_Unmarshal_AuthCode eqf decode \<lparr>AuthCode.RedirectURL = [], AuthCode.SessionID = []\<rparr>)"

definition handleCallback ::
  "('u, 'crd) handler \<Rightarrow> ResponseWriter \<Rightarrow> Request \<Rightarrow> ResponseWriter" where
  "handleCallback h w r =
     (let errMsg = Values_Get (Form r) ''error'' in
      if errMsg \<noteq> [] then
        http_Error (errMsg @ '': '' @ Values_Get (Form r) ''error_description'') StatusBadRequest w
      else
        (let code = Values_Get (Form r) ''code'';
             code = (if code = [] then Values_Get (URL_Query r) ''code'' else code)
         in
         if code = [] then
           http_Error (''no code in request: '' @ Sprintf_q h (Form r)) StatusBadRequest w
         else
           (let state = Values_Get (Form r) ''state'';
                state = (if state = [] then Values_Get (URL_Query r) ''state'' else state)
            in
            case DecodeString StdEncoding state of
              Inl err \<Rightarrow> http_Error (error_Error h err) StatusBadRequest w
            | Inr decode \<Rightarrow>
                (case json_Unmarshal_AuthCode (equalFold h) decode
                        \<lparr>AuthCode.RedirectURL = [], AuthCode.SessionID = []\<rparr> of
                   Inl err \<Rightarrow> http_Error (error_Error h err) StatusBadRequest w
                 | Inr authCode \<Rightarrow>
                     (case oidc_Exchange h code of
                        Inl err \<Rightarrow> http_Error ''internal error'' StatusInternalServerError w
                      | Inr token \<Rightarrow>
                          (let ok = (Extra_id_token token \<noteq> None);
                               jwtStr = (case Extra_id_token token of None \<Rightarrow> [] | Some t \<Rightarrow> t)
                           in
                           if \<not> ok then http_Error ''internal error'' StatusInternalServerError w
                           else
                             (case parseJWT jwtStr of
                                Inl err \<Rightarrow> http_Error ''internal error'' StatusInternalServerError w
                              | Inr jwt \<Rightarrow>
                                  if \<not> ok then
                                    http_Error ''internal error'' StatusInternalServerError w
                                  else
                                    (let sessionCookie =
                                           \<lparr>CreatedAt = time_Now h,
                                            ExpiresOn = Expiry token,
                                            AccessToken = Token.AccessToken token,
                                            IDToken = jwt,
                                            RefreshToken = Token.RefreshToken token,
                                            RedirectURL = AuthCode.RedirectURL authCode,
                                            SessionID = AuthCode.SessionID authCode\<rparr>
                                     in
                                     case SessionState_Encode h sessionCookie of
                                       Inl err \<Rightarrow>
                                         http_Error ''internal error'' StatusInternalServerError w
                                     | Inr b \<Rightarrow>
                                         http_Redirect
                                           (''/resources?s='' @ AuthCode.SessionID authCode)
                                           StatusFound
                                           (http_SetCookie
                                              (cookie_MakeCookie h r
                                                 (''kube-bind-'' @ AuthCode.SessionID authCode)
                                                 b (1 * Hour))
                                              w)))))))))"

subsection \<open>handleResources\<close>

text \<open>
  Indexing a slice panics out of range; the server recovers the panic and the client
  gets no response from the handler.
\<close>

datatype runtime_panic = IndexOutOfRange nat nat

definition slice_index :: "'a list \<Rightarrow> nat \<Rightarrow> runtime_panic + 'a" where
  "slice_index xs i = (if i < length xs then Inr (xs ! i) else Inl (IndexOutOfRange i (length xs)))"

definition handleResources ::
  "('u, 'crd) handler \<Rightarrow> ResponseWriter \<Rightarrow> Request \<Rightarrow> runtime_panic + ResponseWriter" where
  "handleResources h w r =
     (let w = prepareNoCache h w in
      if testingAutoSelect h \<noteq> [] then
        (let parts = strings_SplitN (testingAutoSelect h) CHR ''.'' 2 in
         case slice_index parts 0 of
           Inl p \<Rightarrow> Inl p
         | Inr parts0 \<Rightarrow>
             (case slice_index parts 1 of
                Inl p \<Rightarrow> Inl p
              | Inr parts1 \<Rightarrow>
                  Inr (http_Redirect (''/resources/'' @ parts0 @ ''/'' @ parts1) StatusFound w)))
      else
        (case apiextensionsLister_List h of
           Inl err \<Rightarrow> Inr (http_Error ''internal error'' StatusInternalServerError w)
         | Inr crds \<Rightarrow>
             (let crds = sort_key (crd_Name h) crds in
              case resourcesTemplate_Execute h (Values_Get (URL_Query r) ''s'') crds of
                Inl err \<Rightarrow> Inr (http_Error ''internal error'' StatusInternalServerError w)
              | Inr bs \<Rightarrow> Inr (Write bs (Header_Set ''Content-Type'' ''text/html'' w)))))"

subsection \<open>handleBind\<close>

text \<open>
  Beside the response, \<open>handleBind\<close> returns the credential bundles that
  \<^verbatim>\<open>kubeManager.HandleResources\<close> has handed out during the request: the call is the
  one effect of the handler outside the response.
\<close>

definition bind_authResponse :: "SessionState \<Rightarrow> idToken \<Rightarrow> string \<Rightarrow> string \<Rightarrow> string \<Rightarrow> AuthResponse" where
  "bind_authResponse state idTok kfg group' resource =
     \<lparr>AuthResponse.SessionID = SessionState.SessionID state,
      ID = Issuer idTok @ ''/'' @ Subject idTok,
      Kubeconfig = kfg,
      AuthResponse.Group = group',
      AuthResponse.Resource = resource,
      Export = resource @ ''.'' @ group'\<rparr>"

definition handleBind ::
  "('u, 'crd) handler \<Rightarrow> ResponseWriter \<Rightarrow> Request \<Rightarrow> ResponseWriter \<times> string list" where
  "handleBind h w r =
     (let w = prepareNoCache h w in
      case Request_Cookie r (''kube-bind-'' @ Values_Get (URL_Query r) ''s'') of
        Inl err \<Rightarrow> (http_Error ''internal error'' StatusInternalServerError w, [])
      | Inr ck \<Rightarrow>
          (case cookie_Decode h ck of
             Inl err \<Rightarrow> (http_Error ''internal error'' StatusInternalServerError w, [])
           | Inr state \<Rightarrow>
               (case json_Unmarshal_idToken (equalFold h) (IDToken state)
                       \<lparr>Subject = [], Issuer = []\<rparr> of
                  Inl err \<Rightarrow> (http_Error ''internal error'' StatusInternalServerError w, [])
                | Inr idTok \<Rightarrow>
                    (let group' = Values_Get (URL_Query r) ''group'';
                         resource = Values_Get (URL_Query r) ''resource''
                     in
                     case kubeManager_HandleResources h (Subject idTok) resource group' of
                       Inl err \<Rightarrow> (http_Error ''internal error'' StatusInternalServerError w, [])
                     | Inr kfg \<Rightarrow>
                         (let authResponse = bind_authResponse state idTok kfg group' resource in
                          case json_Marshal_AuthResponse authResponse of
                            Inl err \<Rightarrow>
                              (http_Error ''internal error'' StatusInternalServerError w, [kfg])
                          | Inr payload \<Rightarrow>
                              (let encoded = EncodeToString StdEncoding payload in
                               case url_Parse h (SessionState.RedirectURL state) of
                                 Inl err \<Rightarrow>
                                   (http_Error ''internal error'' StatusInternalServerError w, [kfg])
                               | Inr parsedAuthURL \<Rightarrow>
                                   (http_Redirect
                                      (url_String_with h parsedAuthURL ''auth_response'' encoded)
                                      StatusFound w,
                                    [kfg])))))))"

section \<open>The service export reconciler\<close>

text \<open>
  \<open>ensureResourcesExist\<close> of package \<^verbatim>\<open>serviceexport\<close>. The reconciler's
  \<open>getServiceExportResource\<close> and the helpers it calls are parameters:
  \<open>IsNotFound\<close> is \<^verbatim>\<open>errors.IsNotFound\<close> on an error that is not nil,
  \<open>resource_Scope\<close> reads \<^verbatim>\<open>resource.Spec.Scope\<close>, and
  \<open>ServiceExportResourceToCRD\<close> gives the error of the conversion, if any. The function
  returns the errors it aggregates, the conditions it marks on the export, in order, and
  the names it has looked up, in order.
\<close>

datatype ResourceScope = NamespaceScoped | ClusterScoped










section \<open>Definitions for the statements\<close>

subsection \<open>An example deployment\<close>

text \<open>
  A concrete handler and concrete requests, on which the properties below are run. The
  identity provider accepts the code \<open>good\<close> and returns an ID token whose payload is
  the empty JSON object; the cookie codec of the example keeps the redirect URL as the
  cookie value and makes a cookie of the name and value it is given, which expires the
  given duration after the clock of the example (\<open>0\<close>); the URL parser rejects \<open>:\<close>
  (a URL without a scheme).
\<close>

definition example_handler :: "(string, string) handler" where
  "example_handler =
     \<lparr>oidc_AuthCodeURL = (\<lambda>scopes state. ''https://idp.example/auth?state='' @ state),
      oidc_Exchange =
        (\<lambda>code. if code = ''good''
                then Inr \<lparr>Token.AccessToken = ''at'', Token.RefreshToken = ''rt'', Expiry = 7,
                          Extra_id_token = Some ''h.e30.s''\<rparr>
                else Inl (Upstream ''oauth2: cannot fetch token'')),
      testingAutoSelect = [],
      apiextensionsLister_List = Inr [],
      crd_Name = (\<lambda>crd. crd),
      resourcesTemplate_Execute = (\<lambda>sessionID crds. Inr ''page''),
      kubeManager_HandleResources =
        (\<lambda>subject resource group'.
           if resource = ''fail'' then Inl (Upstream ''cannot create namespace'')
           else Inr ''kubeconfig''),
      SessionState_Encode = (\<lambda>st. Inr (SessionState.RedirectURL st)),
      cookie_Decode =
        (\<lambda>v. if v = [] then Inl (Upstream ''empty cookie'')
             else Inr \<lparr>CreatedAt = 0, ExpiresOn = 7, AccessToken = ''at'', IDToken = ''{}'',
                       RefreshToken = ''rt'', RedirectURL = v, SessionID = ''abc''\<rparr>),
      cookie_MakeCookie =
        (\<lambda>r name v ttl.
           \<lparr>Name = name, Value = v, Path = ''/'', Expires = ttl, MaxAge = 0, Secure = False,
            HttpOnly = True\<rparr>),
      url_Parse = (\<lambda>u. if u = '':'' then Inl (Upstream ''missing protocol scheme'') else Inr u),
      url_String_with = (\<lambda>u k v. u @ ''?'' @ k @ ''='' @ v),
      time_Now = 0,
      expires_epoch = ''Thu, 01 Jan 1970 00:00:00 UTC'',
      error_Error = (\<lambda>err. ''error''),
      Sprintf_q = (\<lambda>v. ''map[]''),
      equalFold = (\<lambda>name key. False)\<rparr>"

definition example_request :: "(string \<times> string) list \<Rightarrow> (string \<times> string) list \<Rightarrow> Request" where
  "example_request query cookies =
     \<lparr>Form = Map.empty, URL_Query = map_of (map (\<lambda>(k, v). (k, [v])) query), Cookies = cookies\<rparr>"

subsection \<open>Parts of a request\<close>

text \<open>
  The authorization code and the state as \<open>handleCallback\<close> reads them (the form
  first, then the query), the name of the cookie \<open>handleBind\<close> asks for, and the
  statement that a failed step leaves nothing behind.
\<close>

definition callback_code :: "Request \<Rightarrow> string" where
  "callback_code r =
     (if Values_Get (Form r) ''code'' = [] then Values_Get (URL_Query r) ''code''
      else Values_Get (Form r) ''code'')"

definition callback_state :: "Request \<Rightarrow> string" where
  "callback_state r =
     (if Values_Get (Form r) ''state'' = [] then Values_Get (URL_Query r) ''state''
      else Values_Get (Form r) ''state'')"

definition bind_cookie_name :: "Request \<Rightarrow> string" where
  "bind_cookie_name r = ''kube-bind-'' @ Values_Get (URL_Query r) ''s''"

definition leaves_no_artifact :: "('u, 'crd) handler \<Rightarrow> Request \<Rightarrow> bool" where
  "leaves_no_artifact h r =
     ((400 \<le> Status (handleCallback h NewResponseWriter r) \<longrightarrow>
         SetCookies (handleCallback h NewResponseWriter r) = []) \<and>
      (400 \<le> Status (fst (handleBind h NewResponseWriter r)) \<longrightarrow>
         snd (handleBind h NewResponseWriter r) = []))"

subsection \<open>The state parameter\<close>

text \<open>
  The state as \<open>handleAuthorize\<close> makes it (JSON, then standard base64), and the
  round trip of a handshake request through it and through the decoding of
  \<open>handleCallback\<close>. \<open>cont\<close> is a UTF-8 continuation byte.
\<close>

definition authorize_state :: "AuthCode \<Rightarrow> error + string" where
  "authorize_state code =
     (case json_Marshal_AuthCode code of
        Inl err \<Rightarrow> Inl err
      | Inr dataCode \<Rightarrow> Inr (EncodeToString StdEncoding dataCode))"

definition state_round_trip :: "(string \<Rightarrow> string \<Rightarrow> bool) \<Rightarrow> AuthCode \<Rightarrow> bool" where
  "state_round_trip eqf code =
     (case authorize_state code of
        Inl err \<Rightarrow> False
      | Inr state \<Rightarrow> callback_authCode eqf state = Inr code)"

definition cont :: "char \<Rightarrow> bool" where
  "cont c = (0x80 \<le> (of_char c :: nat) \<and> (of_char c :: nat) \<le> 0xBF)"

section \<open>Properties of the string and base64 functions\<close>

lemma Index_None_iff: "Index s sep = None \<longleftrightarrow> sep \<notin> set s"
  by (induction s) (auto split: option.splits)

lemma Count_drop_Index:
  "Index s sep = Some m \<Longrightarrow> Count s sep = Suc (Count (drop (Suc m) s) sep)"
  by (induction s arbitrary: m) (auto simp: Count_def split: option.splits if_splits)

lemma Count_zero_iff: "Count s sep = 0 \<longleftrightarrow> Index s sep = None"
  by (induction s) (auto simp: Count_def split: option.splits)

lemma length_genSplit_loop:
  "Count s sep \<le> k \<Longrightarrow> length (genSplit_loop s sep k) = Count s sep + 1"
proof (induction k arbitrary: s)
  case 0
  then show ?case by simp
next
  case (Suc k)
  show ?case
  proof (cases "Index s sep")
    case None
    then show ?thesis using Count_zero_iff [of s sep] by simp
  next
    case (Some m)
    with Suc.prems Count_drop_Index [OF Some] have "Count (drop (Suc m) s) sep \<le> k" by simp
    from Suc.IH [OF this] Some Count_drop_Index [OF Some] show ?thesis by simp
  qed
qed

text \<open>\<^verbatim>\<open>strings.Split\<close> gives one part more than there are separators.\<close>

lemma length_strings_Split: "length (strings_Split s sep) = Count s sep + 1"
proof -
  have "Count s sep \<le> length s" by (simp add: Count_def)
  then show ?thesis
    by (simp add: strings_Split_def genSplit_def Let_def length_genSplit_loop)
qed

text \<open>\<^verbatim>\<open>strings.SplitN(s, sep, 2)\<close> cuts at the first separator, if there is one.\<close>

lemma strings_SplitN_2:
  "strings_SplitN s sep 2 =
     (case Index s sep of None \<Rightarrow> [s] | Some m \<Rightarrow> [take m s, drop (m + 1) s])"
proof (cases s)
  case Nil
  then show ?thesis by (simp add: strings_SplitN_def genSplit_def)
next
  case (Cons a list)
  then have "nat (2 - 1) = Suc 0" by simp
  with Cons show ?thesis
    by (simp add: strings_SplitN_def genSplit_def Let_def split: option.splits)
qed

lemmas base64_eval =
  DecodeString_def StdEncoding_def RawURLEncoding_def decodeMap_def encodeStd_def encodeURL_def
  quantum_bytes_def dbuf_at_def byte_def is_newline_def skip_newlines_def
  char_of_eq_iff take_bit_eq_mod

lemmas split_eval = strings_Split_def strings_SplitN_def genSplit_def Let_def Count_def

section \<open>The handlers, case by case\<close>

lemmas http_defs =
  http_Error_def http_Redirect_def http_SetCookie_def Write_def WriteHeader_def Header_Set_def
  NewResponseWriter_def StatusFound_def StatusBadRequest_def StatusInternalServerError_def
  prepareNoCache_def

lemma handleCallback_cases:
  "handleCallback h w r =
     (if Values_Get (Form r) ''error'' \<noteq> [] then
        http_Error (Values_Get (Form r) ''error'' @ '': '' @ Values_Get (Form r) ''error_description'')
          StatusBadRequest w
      else if callback_code r = [] then
        http_Error (''no code in request: '' @ Sprintf_q h (Form r)) StatusBadRequest w
      else
        (case callback_authCode (equalFold h) (callback_state r) of
           Inl err \<Rightarrow> http_Error (error_Error h err) StatusBadRequest w
         | Inr authCode \<Rightarrow>
             (case oidc_Exchange h (callback_code r) of
                Inl err \<Rightarrow> http_Error ''internal error'' StatusInternalServerError w
              | Inr token \<Rightarrow>
                  (case Extra_id_token token of
                     None \<Rightarrow> http_Error ''internal error'' StatusInternalServerError w
                   | Some jwtStr \<Rightarrow>
                       (case parseJWT jwtStr of
                          Inl err \<Rightarrow> http_Error ''internal error'' StatusInternalServerError w
                        | Inr jwt \<Rightarrow>
                            (case SessionState_Encode h
                                    \<lparr>CreatedAt = time_Now h, ExpiresOn = Expiry token,
                                     AccessToken = Token.AccessToken token, IDToken = jwt,
                                     RefreshToken = Token.RefreshToken token,
                                     RedirectURL = AuthCode.RedirectURL authCode,
                                     SessionID = AuthCode.SessionID authCode\<rparr> of
                               Inl err \<Rightarrow> http_Error ''internal error'' StatusInternalServerError w
                             | Inr b \<Rightarrow>
                                 http_Redirect (''/resources?s='' @ AuthCode.SessionID authCode)
                                   StatusFound
                                   (http_SetCookie
                                      (cookie_MakeCookie h r
                                         (''kube-bind-'' @ AuthCode.SessionID authCode) b (1 * Hour))
                                      w)))))))"
  unfolding handleCallback_def Let_def callback_code_def [symmetric] callback_state_def [symmetric]
    callback_authCode_def
  by (simp split: sum.split option.split)

lemma handleBind_cases:
  "handleBind h w r =
     (case Request_Cookie r (bind_cookie_name r) of
        Inl err \<Rightarrow> (http_Error ''internal error'' StatusInternalServerError (prepareNoCache h w), [])
      | Inr ck \<Rightarrow>
          (case cookie_Decode h ck of
             Inl err \<Rightarrow> (http_Error ''internal error'' StatusInternalServerError (prepareNoCache h w), [])
           | Inr state \<Rightarrow>
               (case json_Unmarshal_idToken (equalFold h) (IDToken state) \<lparr>Subject = [], Issuer = []\<rparr> of
                  Inl err \<Rightarrow>
                    (http_Error ''internal error'' StatusInternalServerError (prepareNoCache h w), [])
                | Inr idTok \<Rightarrow>
                    (case kubeManager_HandleResources h (Subject idTok)
                            (Values_Get (URL_Query r) ''resource'') (Values_Get (URL_Query r) ''group'') of
                       Inl err \<Rightarrow>
                         (http_Error ''internal error'' StatusInternalServerError (prepareNoCache h w), [])
                     | Inr kfg \<Rightarrow>
                         (case json_Marshal_AuthResponse
                                 (bind_authResponse state idTok kfg (Values_Get (URL_Query r) ''group'')
                                    (Values_Get (URL_Query r) ''resource'')) of
                            Inl err \<Rightarrow>
                              (http_Error ''internal error'' StatusInternalServerError
                                 (prepareNoCache h w), [kfg])
                          | Inr payload \<Rightarrow>
                              (case url_Parse h (SessionState.RedirectURL state) of
                                 Inl err \<Rightarrow>
                                   (http_Error ''internal error'' StatusInternalServerError
                                      (prepareNoCache h w), [kfg])
                               | Inr parsedAuthURL \<Rightarrow>
                                   (http_Redirect
                                      (url_String_with h parsedAuthURL ''auth_response''
                                         (EncodeToString StdEncoding payload))
                                      StatusFound (prepareNoCache h w),
                                    [kfg])))))))"
  unfolding handleBind_def Let_def bind_cookie_name_def
  by (simp split: sum.split)

section \<open>Properties of the handlers\<close>

text \<open>
  C10. \<open>parseJWT\<close> returns an error exactly when its input has fewer than two parts
  between dots (that is, no dot at all, by \<open>length_strings_Split\<close>) or when the second
  part does not decode as unpadded URL-safe base64. An input of two parts with a
  decodable second part is accepted, and its payload returned; the error for too few
  parts is the one whose message says that three parts are expected, and it always
  reports one part.
\<close>

theorem parseJWT_error_iff:
  "((\<exists>err. parseJWT p = Inl err) \<longleftrightarrow>
      (length (strings_Split p CHR ''.'') < 2 \<or>
       (\<exists>err. DecodeString RawURLEncoding (strings_Split p CHR ''.'' ! 1) = Inl err))) \<and>
   (length (strings_Split p CHR ''.'') = 2 \<longrightarrow>
      DecodeString RawURLEncoding (strings_Split p CHR ''.'' ! 1) = Inr payload \<longrightarrow>
      parseJWT p = Inr payload) \<and>
   (length (strings_Split p CHR ''.'') < 2 \<longrightarrow>
      parseJWT p = Inl (Errorf ''oidc: malformed jwt, expected 3 parts got %d'' [ArgInt 1]))"
proof -
  have "length (strings_Split p CHR ''.'') < 2 \<Longrightarrow> length (strings_Split p CHR ''.'') = 1"
    by (simp add: length_strings_Split)
  then show ?thesis
    by (auto simp: parseJWT_def Let_def split: sum.splits)
qed

theorem parseJWT_error_iff_witness:
  "length (strings_Split ''a.YQ'' CHR ''.'') = 2 \<and>
   DecodeString RawURLEncoding (strings_Split ''a.YQ'' CHR ''.'' ! 1) = Inr ''a'' \<and>
   parseJWT ''a.YQ'' = Inr ''a'' \<and>
   length (strings_Split ''abc'' CHR ''.'') < 2 \<and>
   parseJWT ''abc'' = Inl (Errorf ''oidc: malformed jwt, expected 3 parts got %d'' [ArgInt 1])"
proof -
  have s: "strings_Split ''a.YQ'' CHR ''.'' = [''a'', ''YQ'']"
    by (simp add: split_eval)
  have d: "DecodeString RawURLEncoding ''YQ'' = Inr ''a''"
    by (simp add: base64_eval)
  have t: "strings_Split ''abc'' CHR ''.'' = [''abc'']"
    by (simp add: split_eval)
  show ?thesis
    using parseJWT_error_iff [of "''a.YQ''" "''a''"] parseJWT_error_iff [of "''abc''" "''a''"]
    by (simp add: s d t)
qed

lemma example_parseJWT: "parseJWT ''h.e30.s'' = Inr ''{}''"
proof -
  have s: "strings_Split ''h.e30.s'' CHR ''.'' = [''h'', ''e30'', ''s'']"
    by (simp add: split_eval eval_nat_numeral)
  have d: "DecodeString RawURLEncoding ''e30'' = Inr ''{}''"
    by (simp add: base64_eval)
  show ?thesis by (simp add: parseJWT_def s d)
qed

lemmas json_eval =
  unmarshal_strings_def json_parse_def skip_space_def isSpace_def dquote_def backslash_def
  maxNestingDepth_def field_index_def eval_nat_numeral emit_def isDigit_def scan_literal_def

lemma example_idToken:
  "json_Unmarshal_idToken eqf ''{}'' \<lparr>Subject = [], Issuer = []\<rparr> = Inr \<lparr>Subject = [], Issuer = []\<rparr>"
  by (simp add: json_Unmarshal_idToken_def json_eval)

lemma example_state_null:
  "callback_authCode eqf ''bnVsbA=='' = Inr \<lparr>AuthCode.RedirectURL = [], AuthCode.SessionID = []\<rparr>"
proof -
  have d: "DecodeString StdEncoding ''bnVsbA=='' = Inr ''null''"
    by (simp add: base64_eval)
  have j: "unmarshal_strings eqf AuthCode_names [[], []] ''null'' = Inr [[], []]"
    by (simp add: json_eval AuthCode_names_def)
  show ?thesis by (simp add: callback_authCode_def json_Unmarshal_AuthCode_def d j)
qed

text \<open>
  C7. An \<^verbatim>\<open>/authorize\<close> request whose \<open>u\<close> or \<open>s\<close> is empty gets the status 400
  and no redirect; one where both are non-empty gets the status 302 and a redirect to
  the identity provider's authorization URL, with the four scopes and with the encoded
  handshake request as the state.
\<close>

theorem handleAuthorize_status:
  "(Values_Get (URL_Query r) ''u'' = [] \<or> Values_Get (URL_Query r) ''s'' = [] \<longrightarrow>
      Status (handleAuthorize h NewResponseWriter r) = 400 \<and>
      Redirect (handleAuthorize h NewResponseWriter r) = None) \<and>
   (Values_Get (URL_Query r) ''u'' \<noteq> [] \<and> Values_Get (URL_Query r) ''s'' \<noteq> [] \<longrightarrow>
      Status (handleAuthorize h NewResponseWriter r) = 302 \<and>
      (\<exists>dataCode.
         json_Marshal_AuthCode
           \<lparr>AuthCode.RedirectURL = Values_Get (URL_Query r) ''u'',
            AuthCode.SessionID = Values_Get (URL_Query r) ''s''\<rparr> = Inr dataCode \<and>
         Redirect (handleAuthorize h NewResponseWriter r) =
           Some (oidc_AuthCodeURL h [''openid'', ''profile'', ''email'', ''offline_access'']
                   (EncodeToString StdEncoding dataCode))))"
  by (simp add: handleAuthorize_def Let_def http_defs json_Marshal_AuthCode_def)

theorem handleAuthorize_status_witness:
  "Values_Get (URL_Query (example_request [(''u'', ''https://consumer.example/cb'')] [])) ''s'' = [] \<and>
   Status (handleAuthorize example_handler NewResponseWriter
             (example_request [(''u'', ''https://consumer.example/cb'')] [])) = 400 \<and>
   Values_Get (URL_Query (example_request [(''u'', ''https://consumer.example/cb''), (''s'', ''abc123'')] [])) ''u'' \<noteq> [] \<and>
   Values_Get (URL_Query (example_request [(''u'', ''https://consumer.example/cb''), (''s'', ''abc123'')] [])) ''s'' \<noteq> [] \<and>
   Status (handleAuthorize example_handler NewResponseWriter
             (example_request [(''u'', ''https://consumer.example/cb''), (''s'', ''abc123'')] [])) = 302"
  using handleAuthorize_status [of "example_request [(''u'', ''https://consumer.example/cb'')] []" example_handler]
    handleAuthorize_status [of "example_request [(''u'', ''https://consumer.example/cb''), (''s'', ''abc123'')] []" example_handler]
  by (simp add: example_request_def Values_Get_def)

text \<open>
  C9. With a non-empty auto-select override, \<open>handleResources\<close> panics on the index
  \<open>parts[1]\<close> exactly when the override holds no dot: then the split has one part and
  no response is returned. With a dot it returns the redirect built from the text
  before the first dot and the text after it.
\<close>

theorem handleResources_autoselect_panic:
  "testingAutoSelect h \<noteq> [] \<Longrightarrow>
     (CHR ''.'' \<notin> set (testingAutoSelect h) \<longrightarrow>
        handleResources h w r = Inl (IndexOutOfRange 1 1)) \<and>
     (CHR ''.'' \<in> set (testingAutoSelect h) \<longrightarrow>
        (\<exists>m. Index (testingAutoSelect h) CHR ''.'' = Some m \<and>
             handleResources h w r =
               Inr (http_Redirect
                      (''/resources/'' @ take m (testingAutoSelect h) @ ''/'' @
                         drop (m + 1) (testingAutoSelect h))
                      StatusFound (prepareNoCache h w))))"
proof (cases "Index (testingAutoSelect h) CHR ''.''")
  case None
  assume "testingAutoSelect h \<noteq> []"
  with None show ?thesis
    using Index_None_iff [of "testingAutoSelect h" "CHR ''.''"]
    by (simp add: handleResources_def Let_def strings_SplitN_2 slice_index_def)
next
  case (Some m)
  assume "testingAutoSelect h \<noteq> []"
  with Some show ?thesis
    using Index_None_iff [of "testingAutoSelect h" "CHR ''.''"]
    by (simp add: handleResources_def Let_def strings_SplitN_2 slice_index_def)
qed

theorem handleResources_autoselect_panic_witness:
  "testingAutoSelect (example_handler\<lparr>testingAutoSelect := ''foobar''\<rparr>) \<noteq> [] \<and>
   CHR ''.'' \<notin> set (testingAutoSelect (example_handler\<lparr>testingAutoSelect := ''foobar''\<rparr>)) \<and>
   handleResources (example_handler\<lparr>testingAutoSelect := ''foobar''\<rparr>) NewResponseWriter
     (example_request [(''s'', ''abc123'')] []) = Inl (IndexOutOfRange 1 1) \<and>
   testingAutoSelect (example_handler\<lparr>testingAutoSelect := ''foo.bar''\<rparr>) \<noteq> [] \<and>
   CHR ''.'' \<in> set (testingAutoSelect (example_handler\<lparr>testingAutoSelect := ''foo.bar''\<rparr>)) \<and>
   (\<exists>w'. handleResources (example_handler\<lparr>testingAutoSelect := ''foo.bar''\<rparr>) NewResponseWriter
            (example_request [(''s'', ''abc123'')] []) = Inr w')"
  using handleResources_autoselect_panic
          [of "example_handler\<lparr>testingAutoSelect := ''foobar''\<rparr>" NewResponseWriter
              "example_request [(''s'', ''abc123'')] []"]
        handleResources_autoselect_panic
          [of "example_handler\<lparr>testingAutoSelect := ''foo.bar''\<rparr>" NewResponseWriter
              "example_request [(''s'', ''abc123'')] []"]
  by auto

text \<open>
  C6. With the override \<open>foo.bar\<close>, every \<^verbatim>\<open>/resources\<close> request, whatever its query,
  is redirected without listing or rendering, but to the path \<^verbatim>\<open>/resources/foo/bar\<close>.
  That path is no route of \<open>AddRoutes\<close>: the bind step is the route \<^verbatim>\<open>/bind\<close>, which
  reads the session id, the group and the resource from the query, and the redirect
  carries none of them.
\<close>

theorem handleResources_autoselect_target:
  "handleResources (h\<lparr>testingAutoSelect := ''foo.bar''\<rparr>) w r =
     Inr (http_Redirect ''/resources/foo/bar'' StatusFound
            (prepareNoCache (h\<lparr>testingAutoSelect := ''foo.bar''\<rparr>) w)) \<and>
   Router_Match ''/resources/foo/bar'' = None \<and>
   Router_Match ''/bind'' = Some handleBind_route"
  by (simp add: handleResources_def Let_def strings_SplitN_2 slice_index_def Router_Match_def
      AddRoutes_def)

text \<open>
  C3. A callback that carries \<open>error\<close> and \<open>error_description\<close> in its query, as the
  identity provider sends them, with the form not parsed (the handler never calls
  \<^verbatim>\<open>ParseForm\<close>, so \<^verbatim>\<open>r.Form\<close> is nil): the check of \<^verbatim>\<open>r.Form.Get("error")\<close>
  sees nothing, and the answer is the 400 for a missing code, whose body holds neither
  the error nor its description. No cookie is set.
\<close>

theorem handleCallback_error_in_query:
  "handleCallback h NewResponseWriter
     \<lparr>Form = Map.empty,
      URL_Query = [''error'' \<mapsto> [e], ''error_description'' \<mapsto> [d]],
      Cookies = cs\<rparr> =
     http_Error (''no code in request: '' @ Sprintf_q h Map.empty) StatusBadRequest NewResponseWriter \<and>
   Body (handleCallback h NewResponseWriter
     \<lparr>Form = Map.empty,
      URL_Query = [''error'' \<mapsto> [e], ''error_description'' \<mapsto> [d]],
      Cookies = cs\<rparr>) = ''no code in request: '' @ Sprintf_q h Map.empty @ [CHR 0x0A]"
  by (simp add: handleCallback_def Let_def Values_Get_def http_defs)

text \<open>
  What the handler does when the form has been parsed: the branch of the specification.
\<close>

lemma handleCallback_error_in_form:
  "Values_Get (Form r) ''error'' \<noteq> [] \<Longrightarrow>
     handleCallback h w r =
       http_Error (Values_Get (Form r) ''error'' @ '': '' @ Values_Get (Form r) ''error_description'')
         StatusBadRequest w"
  by (simp add: handleCallback_def Let_def)

lemma example_bind_unparsable:
  "handleBind example_handler NewResponseWriter
     (example_request [(''s'', ''abc''), (''group'', ''example.io''), (''resource'', ''widgets'')]
        [(''kube-bind-abc'', '':'')]) =
   (http_Error ''internal error'' StatusInternalServerError
      (prepareNoCache example_handler NewResponseWriter), [''kubeconfig''])"
  unfolding handleBind_cases
  by (simp add: example_request_def Values_Get_def bind_cookie_name_def Request_Cookie_def
      example_handler_def example_idToken json_Marshal_AuthResponse_def)

text \<open>
  C4, as stated: an error response of the callback leaves no cookie, and an error
  response of the bind handler leaves no credential minted. The bind half fails: the
  stored redirect URL is parsed only after \<^verbatim>\<open>HandleResources\<close> has returned the
  credential, so a session whose redirect URL does not parse (here \<open>:\<close>) ends in a 500
  with the credential minted.
\<close>

theorem bind_error_after_minting:
  "\<not> leaves_no_artifact example_handler
       (example_request [(''s'', ''abc''), (''group'', ''example.io''), (''resource'', ''widgets'')]
          [(''kube-bind-abc'', '':'')])"
  unfolding leaves_no_artifact_def example_bind_unparsable
  by (simp add: http_defs)

text \<open>
  C4, amended: an error response of the callback leaves no cookie; an error response
  of the bind handler leaves no credential minted, unless the session cookie was read and
  decoded and the redirect URL stored in it does not parse.
\<close>

theorem failure_leaves_no_artifact:
  "(400 \<le> Status (handleCallback h NewResponseWriter r) \<longrightarrow>
      SetCookies (handleCallback h NewResponseWriter r) = []) \<and>
   (400 \<le> Status (fst (handleBind h NewResponseWriter r)) \<longrightarrow>
      snd (handleBind h NewResponseWriter r) = [] \<or>
      (\<exists>ck state err.
         Request_Cookie r (bind_cookie_name r) = Inr ck \<and>
         cookie_Decode h ck = Inr state \<and>
         url_Parse h (SessionState.RedirectURL state) = Inl err))"
proof
  show "400 \<le> Status (handleCallback h NewResponseWriter r) \<longrightarrow>
      SetCookies (handleCallback h NewResponseWriter r) = []"
    unfolding handleCallback_cases
    by (auto simp: http_defs split: sum.splits option.splits if_splits)
next
  show "400 \<le> Status (fst (handleBind h NewResponseWriter r)) \<longrightarrow>
      snd (handleBind h NewResponseWriter r) = [] \<or>
      (\<exists>ck state err.
         Request_Cookie r (bind_cookie_name r) = Inr ck \<and>
         cookie_Decode h ck = Inr state \<and>
         url_Parse h (SessionState.RedirectURL state) = Inl err)"
    unfolding handleBind_cases
    by (auto simp: http_defs json_Marshal_AuthResponse_def split: sum.splits)
qed

lemma example_callback_denied:
  "handleCallback example_handler NewResponseWriter
     (example_request [(''code'', ''bad''), (''state'', ''bnVsbA=='')] []) =
   http_Error ''internal error'' StatusInternalServerError NewResponseWriter"
  unfolding handleCallback_cases
  by (simp add: example_request_def Values_Get_def callback_code_def callback_state_def
      example_state_null example_handler_def)

lemma example_bind_mint_fails:
  "handleBind example_handler NewResponseWriter
     (example_request [(''s'', ''abc''), (''group'', ''example.io''), (''resource'', ''fail'')]
        [(''kube-bind-abc'', ''https://consumer.example/cb'')]) =
   (http_Error ''internal error'' StatusInternalServerError
      (prepareNoCache example_handler NewResponseWriter), [])"
  unfolding handleBind_cases
  by (simp add: example_request_def Values_Get_def bind_cookie_name_def Request_Cookie_def
      example_handler_def example_idToken)

theorem failure_leaves_no_artifact_witness:
  "400 \<le> Status (handleCallback example_handler NewResponseWriter
            (example_request [(''code'', ''bad''), (''state'', ''bnVsbA=='')] [])) \<and>
   SetCookies (handleCallback example_handler NewResponseWriter
            (example_request [(''code'', ''bad''), (''state'', ''bnVsbA=='')] [])) = [] \<and>
   400 \<le> Status (fst (handleBind example_handler NewResponseWriter
            (example_request [(''s'', ''abc''), (''group'', ''example.io''), (''resource'', ''fail'')]
               [(''kube-bind-abc'', ''https://consumer.example/cb'')]))) \<and>
   snd (handleBind example_handler NewResponseWriter
            (example_request [(''s'', ''abc''), (''group'', ''example.io''), (''resource'', ''fail'')]
               [(''kube-bind-abc'', ''https://consumer.example/cb'')])) = []"
proof -
  have c: "400 \<le> Status (handleCallback example_handler NewResponseWriter
            (example_request [(''code'', ''bad''), (''state'', ''bnVsbA=='')] []))"
    unfolding example_callback_denied by (simp add: http_defs)
  have b: "400 \<le> Status (fst (handleBind example_handler NewResponseWriter
            (example_request [(''s'', ''abc''), (''group'', ''example.io''), (''resource'', ''fail'')]
               [(''kube-bind-abc'', ''https://consumer.example/cb'')])))"
    unfolding example_bind_mint_fails by (simp add: http_defs)
  have u: "url_Parse example_handler ''https://consumer.example/cb'' = Inr ''https://consumer.example/cb''"
    by (simp add: example_handler_def)
  from failure_leaves_no_artifact
         [of example_handler "example_request [(''code'', ''bad''), (''state'', ''bnVsbA=='')] []"]
       c
  have 1: "SetCookies (handleCallback example_handler NewResponseWriter
            (example_request [(''code'', ''bad''), (''state'', ''bnVsbA=='')] [])) = []"
    by blast
  have 2: "snd (handleBind example_handler NewResponseWriter
            (example_request [(''s'', ''abc''), (''group'', ''example.io''), (''resource'', ''fail'')]
               [(''kube-bind-abc'', ''https://consumer.example/cb'')])) = []"
    unfolding example_bind_mint_fails by simp
  from c b 1 2 show ?thesis by blast
qed

text \<open>
  C8. Each of the four upstream failures ends in the same response, whatever
  the error is: the status 500 and the body \<^verbatim>\<open>internal error\<close> with a newline. The
  failures are: the token exchange of a callback that has passed its checks; during
  bind, the session cookie missing, the cookie not decoding, and the minter failing.
\<close>

theorem upstream_errors_masked:
  "(Values_Get (Form r) ''error'' = [] \<and> callback_code r \<noteq> [] \<and>
    callback_authCode (equalFold h) (callback_state r) = Inr authCode \<and>
    oidc_Exchange h (callback_code r) = Inl err \<longrightarrow>
      handleCallback h NewResponseWriter r =
        http_Error ''internal error'' StatusInternalServerError NewResponseWriter) \<and>
   (Request_Cookie r (bind_cookie_name r) = Inl err \<longrightarrow>
      fst (handleBind h NewResponseWriter r) =
        http_Error ''internal error'' StatusInternalServerError (prepareNoCache h NewResponseWriter)) \<and>
   (Request_Cookie r (bind_cookie_name r) = Inr ck \<and> cookie_Decode h ck = Inl err \<longrightarrow>
      fst (handleBind h NewResponseWriter r) =
        http_Error ''internal error'' StatusInternalServerError (prepareNoCache h NewResponseWriter)) \<and>
   (Request_Cookie r (bind_cookie_name r) = Inr ck \<and> cookie_Decode h ck = Inr state \<and>
    json_Unmarshal_idToken (equalFold h) (IDToken state) \<lparr>Subject = [], Issuer = []\<rparr> = Inr idTok \<and>
    kubeManager_HandleResources h (Subject idTok) (Values_Get (URL_Query r) ''resource'')
      (Values_Get (URL_Query r) ''group'') = Inl err \<longrightarrow>
      fst (handleBind h NewResponseWriter r) =
        http_Error ''internal error'' StatusInternalServerError (prepareNoCache h NewResponseWriter)) \<and>
   Status (http_Error ''internal error'' StatusInternalServerError (prepareNoCache h NewResponseWriter)) = 500 \<and>
   Body (http_Error ''internal error'' StatusInternalServerError (prepareNoCache h NewResponseWriter)) =
     ''internal error'' @ [CHR 0x0A]"
  unfolding handleCallback_cases handleBind_cases
  by (simp add: http_defs)

lemma example_bind_no_cookie:
  "handleBind example_handler NewResponseWriter (example_request [(''s'', ''abc'')] []) =
   (http_Error ''internal error'' StatusInternalServerError
      (prepareNoCache example_handler NewResponseWriter), [])"
  unfolding handleBind_cases
  by (simp add: example_request_def Values_Get_def bind_cookie_name_def Request_Cookie_def)

lemma example_bind_bad_cookie:
  "handleBind example_handler NewResponseWriter
     (example_request [(''s'', ''abc'')] [(''kube-bind-abc'', [])]) =
   (http_Error ''internal error'' StatusInternalServerError
      (prepareNoCache example_handler NewResponseWriter), [])"
  unfolding handleBind_cases
  by (simp add: example_request_def Values_Get_def bind_cookie_name_def Request_Cookie_def
      example_handler_def)

theorem upstream_errors_masked_witness:
  "Body (handleCallback example_handler NewResponseWriter
           (example_request [(''code'', ''bad''), (''state'', ''bnVsbA=='')] [])) =
     ''internal error'' @ [CHR 0x0A] \<and>
   Body (fst (handleBind example_handler NewResponseWriter (example_request [(''s'', ''abc'')] []))) =
     ''internal error'' @ [CHR 0x0A] \<and>
   Body (fst (handleBind example_handler NewResponseWriter
           (example_request [(''s'', ''abc'')] [(''kube-bind-abc'', [])]))) =
     ''internal error'' @ [CHR 0x0A] \<and>
   Body (fst (handleBind example_handler NewResponseWriter
           (example_request [(''s'', ''abc''), (''group'', ''example.io''), (''resource'', ''fail'')]
              [(''kube-bind-abc'', ''https://consumer.example/cb'')]))) =
     ''internal error'' @ [CHR 0x0A]"
proof -
  let ?r1 = "example_request [(''code'', ''bad''), (''state'', ''bnVsbA=='')] []"
  let ?r2 = "example_request [(''s'', ''abc'')] []"
  let ?r3 = "example_request [(''s'', ''abc'')] [(''kube-bind-abc'', [])]"
  let ?r4 = "example_request [(''s'', ''abc''), (''group'', ''example.io''), (''resource'', ''fail'')]
              [(''kube-bind-abc'', ''https://consumer.example/cb'')]"
  have h1: "Values_Get (Form ?r1) ''error'' = [] \<and> callback_code ?r1 \<noteq> [] \<and>
      callback_authCode (equalFold example_handler) (callback_state ?r1) =
        Inr \<lparr>AuthCode.RedirectURL = [], AuthCode.SessionID = []\<rparr> \<and>
      oidc_Exchange example_handler (callback_code ?r1) = Inl (Upstream ''oauth2: cannot fetch token'')"
    by (simp add: example_request_def Values_Get_def callback_code_def callback_state_def
        example_state_null example_handler_def)
  have h2: "Request_Cookie ?r2 (bind_cookie_name ?r2) = Inl ErrNoCookie"
    by (simp add: example_request_def Values_Get_def bind_cookie_name_def Request_Cookie_def)
  have h3: "Request_Cookie ?r3 (bind_cookie_name ?r3) = Inr [] \<and>
      cookie_Decode example_handler [] = Inl (Upstream ''empty cookie'')"
    by (simp add: example_request_def Values_Get_def bind_cookie_name_def Request_Cookie_def
        example_handler_def)
  have h4: "Request_Cookie ?r4 (bind_cookie_name ?r4) = Inr ''https://consumer.example/cb'' \<and>
      cookie_Decode example_handler ''https://consumer.example/cb'' =
        Inr \<lparr>CreatedAt = 0, ExpiresOn = 7, AccessToken = ''at'', IDToken = ''{}'',
             RefreshToken = ''rt'', RedirectURL = ''https://consumer.example/cb'',
             SessionID = ''abc''\<rparr> \<and>
      json_Unmarshal_idToken (equalFold example_handler) ''{}'' \<lparr>Subject = [], Issuer = []\<rparr> =
        Inr \<lparr>Subject = [], Issuer = []\<rparr> \<and>
      kubeManager_HandleResources example_handler [] (Values_Get (URL_Query ?r4) ''resource'')
        (Values_Get (URL_Query ?r4) ''group'') = Inl (Upstream ''cannot create namespace'')"
    by (simp add: example_request_def Values_Get_def bind_cookie_name_def Request_Cookie_def
        example_handler_def example_idToken)
  have e: "Body (http_Error ''internal error'' StatusInternalServerError
                   (prepareNoCache example_handler NewResponseWriter)) = ''internal error'' @ [CHR 0x0A]"
    by (simp add: http_defs)
  have e': "Body (http_Error ''internal error'' StatusInternalServerError
                    NewResponseWriter) =
              ''internal error'' @ [CHR 0x0A]"
    by (simp add: http_defs)
  from upstream_errors_masked
         [of ?r1 example_handler "\<lparr>AuthCode.RedirectURL = [], AuthCode.SessionID = []\<rparr>"
             "Upstream ''oauth2: cannot fetch token''"] h1
  have "handleCallback example_handler NewResponseWriter ?r1 =
          http_Error ''internal error'' StatusInternalServerError NewResponseWriter"
    by blast
  with e' have 1: "Body (handleCallback example_handler NewResponseWriter ?r1) = ''internal error'' @ [CHR 0x0A]"
    by simp
  from upstream_errors_masked [of ?r2 example_handler _ ErrNoCookie] h2
  have "fst (handleBind example_handler NewResponseWriter ?r2) =
          http_Error ''internal error'' StatusInternalServerError
            (prepareNoCache example_handler NewResponseWriter)"
    by blast
  with e have 2: "Body (fst (handleBind example_handler NewResponseWriter ?r2)) = ''internal error'' @ [CHR 0x0A]"
    by simp
  from upstream_errors_masked [of ?r3 example_handler _ "Upstream ''empty cookie''" "[]"] h3
  have "fst (handleBind example_handler NewResponseWriter ?r3) =
          http_Error ''internal error'' StatusInternalServerError
            (prepareNoCache example_handler NewResponseWriter)"
    by blast
  with e have 3: "Body (fst (handleBind example_handler NewResponseWriter ?r3)) = ''internal error'' @ [CHR 0x0A]"
    by simp
  from upstream_errors_masked
         [of ?r4 example_handler _ "Upstream ''cannot create namespace''" "''https://consumer.example/cb''"
             "\<lparr>CreatedAt = 0, ExpiresOn = 7, AccessToken = ''at'', IDToken = ''{}'',
               RefreshToken = ''rt'', RedirectURL = ''https://consumer.example/cb'',
               SessionID = ''abc''\<rparr>" "\<lparr>Subject = [], Issuer = []\<rparr>"] h4
  have "fst (handleBind example_handler NewResponseWriter ?r4) =
          http_Error ''internal error'' StatusInternalServerError
            (prepareNoCache example_handler NewResponseWriter)"
    by simp
  with e have 4: "Body (fst (handleBind example_handler NewResponseWriter ?r4)) = ''internal error'' @ [CHR 0x0A]"
    by simp
  from 1 2 3 4 show ?thesis by blast
qed








section \<open>The state parameter, from the authorize request to the callback\<close>

subsection \<open>Base64: decoding what was encoded\<close>

lemma div_mod_digit:
  fixes c m k :: nat
  assumes "c < m"
  shows "(k * m + c) div m = k" and "(k * m + c) mod m = c"
  using assms by simp_all

lemma sextets_join:
  assumes v: "v < 16777216"
  shows "(v div 262144 mod 64) * 262144 + (v div 4096 mod 64) * 4096 + (v div 64 mod 64) * 64 + v mod 64 = (v::nat)"
proof -
  define q1 r0 where "q1 = v div 64" and "r0 = v mod 64"
  define q2 r1 where "q2 = q1 div 64" and "r1 = q1 mod 64"
  define q3 r2 where "q3 = q2 div 64" and "r2 = q2 mod 64"
  have 1: "v = q1 * 64 + r0" by (simp add: q1_def r0_def)
  have 2: "q1 = q2 * 64 + r1" by (simp add: q2_def r1_def)
  have 3: "q2 = q3 * 64 + r2" by (simp add: q3_def r2_def)
  have d2: "v div 4096 = q2" by (simp add: q2_def q1_def div_mult2_eq)
  have d3: "v div 262144 = q3" by (simp add: q3_def q2_def q1_def div_mult2_eq)
  have a: "q3 mod 64 = q3" using v d3 by simp
  have "q3 * 262144 + r2 * 4096 + r1 * 64 + r0 = v"
    using 1 2 3 by simp
  then show ?thesis
    unfolding d2 d3 a r2_def [symmetric] q1_def [symmetric] r1_def [symmetric] r0_def [symmetric] .
qed

text \<open>The bytes of a 24-bit value.\<close>

lemma bytes_of_val:
  fixes na nb nc :: nat
  assumes "na < 256" "nb < 256" "nc < 256" and v: "v = na * 65536 + nb * 256 + nc"
  shows "v < 16777216" "v div 65536 = na" "v div 256 mod 256 = nb" "v mod 256 = nc"
proof -
  show "v < 16777216" using assms by simp
  have e1: "v = na * 65536 + (nb * 256 + nc)" by (simp add: v)
  have "nb * 256 + nc < 65536" using assms by simp
  then show "v div 65536 = na"
    by (subst e1) (rule div_mod_digit(1))
  have e: "v = (na * 256 + nb) * 256 + nc" by (simp add: v)
  have "v div 256 = na * 256 + nb"
    by (subst e) (rule div_mod_digit(1) [OF assms(3)])
  then show "v div 256 mod 256 = nb"
    by (simp only: div_mod_digit(2) [OF assms(2)])
  show "v mod 256 = nc"
    by (subst e) (rule div_mod_digit(2) [OF assms(3)])
qed

lemma quantum4:
  assumes v: "v = of_char a * 65536 + of_char b * 256 + of_char c"
  shows "quantum_bytes [v div 262144 mod 64, v div 4096 mod 64, v div 64 mod 64, v mod 64] = [a, b, c]"
proof -
  note b = bytes_of_val [OF _ _ _ v, simplified]
  have "quantum_bytes [v div 262144 mod 64, v div 4096 mod 64, v div 64 mod 64, v mod 64] =
          [byte (v div 65536), byte (v div 256), byte v]"
    by (simp add: quantum_bytes_def dbuf_at_def sextets_join [OF b(1)])
  also have "\<dots> = [a, b, c]"
    using b(2-4) by (simp add: byte_def char_of_eq_iff take_bit_eq_mod)
  finally show ?thesis .
qed

lemma quantum3:
  assumes v: "v = of_char a * 65536 + of_char b * 256"
  shows "quantum_bytes [v div 262144 mod 64, v div 4096 mod 64, v div 64 mod 64] = [a, b]"
proof -
  have v': "v = of_char a * 65536 + of_char b * 256 + (0::nat)" by (simp add: v)
  note b = bytes_of_val [OF _ _ _ v', simplified]
  have "v = (of_char a * 1024 + of_char b * 4) * 64 + 0" by (simp add: v)
  then have m: "v mod 64 = 0" by (simp only: div_mod_digit(2))
  define s0 s1 s2 where "s0 = v div 262144 mod 64" and "s1 = v div 4096 mod 64"
    and "s2 = v div 64 mod 64"
  have "s0 * 262144 + s1 * 4096 + s2 * 64 + v mod 64 = v"
    unfolding s0_def s1_def s2_def by (rule sextets_join [OF b(1)])
  with m have j: "s0 * 262144 + s1 * 4096 + s2 * 64 = v"
    by simp
  have "quantum_bytes [s0, s1, s2] = [byte (v div 65536), byte (v div 256)]"
    by (simp add: quantum_bytes_def dbuf_at_def j)
  also have "\<dots> = [a, b]"
    using b(2-3) by (simp add: byte_def char_of_eq_iff take_bit_eq_mod)
  finally show ?thesis unfolding s0_def s1_def s2_def .
qed

lemma quantum2:
  assumes v: "v = of_char a * 65536"
  shows "quantum_bytes [v div 262144 mod 64, v div 4096 mod 64] = [a]"
proof -
  have v': "v = of_char a * 65536 + 0 * 256 + (0::nat)" by (simp add: v)
  note b = bytes_of_val [OF _ _ _ v', simplified]
  have "v = (of_char a * 1024) * 64 + 0" by (simp add: v)
  then have m: "v mod 64 = 0" by (simp only: div_mod_digit(2))
  have "v div 64 = (of_char a * 16) * 64 + 0" by (simp add: v)
  then have m2: "v div 64 mod 64 = 0" by (simp only: div_mod_digit(2))
  define s0 s1 where "s0 = v div 262144 mod 64" and "s1 = v div 4096 mod 64"
  have "s0 * 262144 + s1 * 4096 + v div 64 mod 64 * 64 + v mod 64 = v"
    unfolding s0_def s1_def by (rule sextets_join [OF b(1)])
  with m m2 have j: "s0 * 262144 + s1 * 4096 = v"
    by simp
  have "quantum_bytes [s0, s1] = [byte (v div 65536)]"
    by (simp add: quantum_bytes_def dbuf_at_def j)
  also have "\<dots> = [a]"
    using b(2) by (simp add: byte_def char_of_eq_iff take_bit_eq_mod)
  finally show ?thesis unfolding s0_def s1_def .
qed

lemma decodeMap_Std_all: "\<forall>i \<in> set [0..<64]. decodeMap StdEncoding (encodeStd ! i) = Some i"
  by code_simp

lemma decodeMap_Std: "decodeMap StdEncoding (encode StdEncoding ! (i mod 64)) = Some (i mod 64)"
  using decodeMap_Std_all by (simp add: StdEncoding_def)

lemma pad_Std:
  "decodeMap StdEncoding CHR ''='' = None" "padChar StdEncoding = Some CHR ''=''"
  "\<not> is_newline CHR ''=''" "skip_newlines [] = []" "skip_newlines ''='' = ''=''"
  by (simp_all add: decodeMap_def StdEncoding_def encodeStd_def is_newline_def skip_newlines_def)

theorem base64_Std_roundtrip: "DecodeString StdEncoding (EncodeToString StdEncoding bs) = Inr bs"
  unfolding DecodeString_def
proof (induction StdEncoding bs rule: EncodeToString.induct)
  case (1 a b c src)
  define v :: nat where "v = of_char a * 65536 + of_char b * 256 + of_char c"
  have e: "EncodeToString StdEncoding (a # b # c # src) =
             encode StdEncoding ! (v div 262144 mod 64) # encode StdEncoding ! (v div 4096 mod 64) #
             encode StdEncoding ! (v div 64 mod 64) # encode StdEncoding ! (v mod 64) #
             EncodeToString StdEncoding src"
    by (simp add: Let_def v_def)
  show ?case
    unfolding e using 1 by (simp add: decodeMap_Std quantum4 [OF v_def])
next
  case (2 a b)
  define v :: nat where "v = of_char a * 65536 + of_char b * 256"
  have e: "EncodeToString StdEncoding [a, b] =
             [encode StdEncoding ! (v div 262144 mod 64), encode StdEncoding ! (v div 4096 mod 64),
              encode StdEncoding ! (v div 64 mod 64), CHR ''='']"
    by (simp add: Let_def v_def pad_Std)
  show ?case
    unfolding e by (simp add: decodeMap_Std pad_Std quantum3 [OF v_def])
next
  case (3 a)
  define v :: nat where "v = of_char a * 65536"
  have e: "EncodeToString StdEncoding [a] =
             [encode StdEncoding ! (v div 262144 mod 64), encode StdEncoding ! (v div 4096 mod 64),
              CHR ''='', CHR ''='']"
    by (simp add: Let_def v_def pad_Std)
  show ?case
    unfolding e by (simp add: decodeMap_Std pad_Std quantum2 [OF v_def])
next
  case 4
  show ?case by simp
qed

subsection \<open>UTF-8: encoding what was decoded\<close>

lemma list_cases4:
  obtains "p = []" | a where "p = [a]" | a b where "p = [a, b]" | a b c where "p = [a, b, c]"
  | a b c d q where "p = a # b # c # d # q"
  by (metis list.exhaust)

text \<open>A valid decode, by the length of its sequence.\<close>

lemma DecodeRune_validE:
  assumes "DecodeRune p = (r, sz)" and "\<not> (r = RuneError \<and> sz = 1)" and "p \<noteq> []"
  obtains (ascii) c0 q where "p = c0 # q" "(of_char c0 :: nat) < 0x80" "r = of_char c0" "sz = 1"
  | (two) c0 c1 q where "p = c0 # c1 # q" "sz = 2"
      "0xC2 \<le> (of_char c0 :: nat)" "(of_char c0 :: nat) < 0xE0" "cont c1"
      "r = of_char c0 mod 32 * 64 + of_char c1 mod 64"
  | (three) c0 c1 c2 q where "p = c0 # c1 # c2 # q" "sz = 3"
      "0xE0 \<le> (of_char c0 :: nat)" "(of_char c0 :: nat) < 0xF0" "cont c1" "cont c2"
      "(of_char c0 :: nat) = 0xE0 \<longrightarrow> 0xA0 \<le> (of_char c1 :: nat)"
      "(of_char c0 :: nat) = 0xED \<longrightarrow> (of_char c1 :: nat) \<le> 0x9F"
      "r = of_char c0 mod 16 * 4096 + of_char c1 mod 64 * 64 + of_char c2 mod 64"
  | (four) c0 c1 c2 c3 q where "p = c0 # c1 # c2 # c3 # q" "sz = 4"
      "0xF0 \<le> (of_char c0 :: nat)" "(of_char c0 :: nat) \<le> 0xF4" "cont c1" "cont c2" "cont c3"
      "(of_char c0 :: nat) = 0xF0 \<longrightarrow> 0x90 \<le> (of_char c1 :: nat)"
      "(of_char c0 :: nat) = 0xF4 \<longrightarrow> (of_char c1 :: nat) \<le> 0x8F"
      "r = of_char c0 mod 8 * 262144 + of_char c1 mod 64 * 4096 + of_char c2 mod 64 * 64 + of_char c3 mod 64"
proof (cases p rule: list_cases4)
  case 1
  with assms show ?thesis by simp
next
  case (2 a)
  with assms ascii show ?thesis
    by (auto simp: DecodeRune_def first_def Let_def split: if_splits)
next
  case (3 a b)
  with assms ascii two show ?thesis
    by (auto simp: DecodeRune_def first_def Let_def cont_def split: if_splits)
next
  case (4 a b c)
  with assms ascii two three show ?thesis
    by (auto simp: DecodeRune_def first_def Let_def cont_def split: if_splits)
next
  case (5 a b c d q)
  with assms ascii two three four show ?thesis
    by (auto simp: DecodeRune_def first_def Let_def cont_def split: if_splits)
qed

text \<open>The decode of a well-formed sequence does not look past it.\<close>

lemma DecodeRune_two:
  assumes "0xC2 \<le> (of_char c0 :: nat)" "(of_char c0 :: nat) < 0xE0" "cont c1"
  shows "DecodeRune (c0 # c1 # q) = (of_char c0 mod 32 * 64 + of_char c1 mod 64, 2)"
  using assms by (simp add: DecodeRune_def first_def Let_def cont_def)

lemma DecodeRune_three:
  assumes "0xE0 \<le> (of_char c0 :: nat)" "(of_char c0 :: nat) < 0xF0" "cont c1" "cont c2"
    "(of_char c0 :: nat) = 0xE0 \<longrightarrow> 0xA0 \<le> (of_char c1 :: nat)"
    "(of_char c0 :: nat) = 0xED \<longrightarrow> (of_char c1 :: nat) \<le> 0x9F"
  shows "DecodeRune (c0 # c1 # c2 # q) =
           (of_char c0 mod 16 * 4096 + of_char c1 mod 64 * 64 + of_char c2 mod 64, 3)"
  using assms by (auto simp: DecodeRune_def first_def Let_def cont_def)

lemma DecodeRune_four:
  assumes "0xF0 \<le> (of_char c0 :: nat)" "(of_char c0 :: nat) \<le> 0xF4" "cont c1" "cont c2" "cont c3"
    "(of_char c0 :: nat) = 0xF0 \<longrightarrow> 0x90 \<le> (of_char c1 :: nat)"
    "(of_char c0 :: nat) = 0xF4 \<longrightarrow> (of_char c1 :: nat) \<le> 0x8F"
  shows "DecodeRune (c0 # c1 # c2 # c3 # q) =
           (of_char c0 mod 8 * 262144 + of_char c1 mod 64 * 4096 + of_char c2 mod 64 * 64 +
            of_char c3 mod 64, 4)"
  using assms by (auto simp: DecodeRune_def first_def Let_def cont_def)

lemma DecodeRune_take_append:
  assumes "DecodeRune p = (r, sz)" and "\<not> (r = RuneError \<and> sz = 1)" and "p \<noteq> []"
  shows "DecodeRune (take sz p @ t) = (r, sz)"
  using assms
proof (cases rule: DecodeRune_validE)
  case (ascii c0 q)
  then show ?thesis by (simp add: DecodeRune_def first_def)
next
  case (two c0 c1 q)
  from two(1,2,6) DecodeRune_two [OF two(3-5), of t] show ?thesis by simp
next
  case (three c0 c1 c2 q)
  from three(1,2,9) DecodeRune_three [OF three(3-8), of t] show ?thesis by simp
next
  case (four c0 c1 c2 c3 q)
  from four(1,2,10) DecodeRune_four [OF four(3-9), of t] show ?thesis by simp
qed

lemma lead_mod:
  fixes n :: nat
  shows "192 \<le> n \<Longrightarrow> n < 224 \<Longrightarrow> n mod 32 = n - 192"
    and "224 \<le> n \<Longrightarrow> n < 240 \<Longrightarrow> n mod 16 = n - 224"
    and "240 \<le> n \<Longrightarrow> n < 248 \<Longrightarrow> n mod 8 = n - 240"
    and "128 \<le> n \<Longrightarrow> n < 192 \<Longrightarrow> n mod 64 = n - 128"
proof -
  { assume a: "192 \<le> n" "n < 224"
    then have "n = 6 * 32 + (n - 192)" by simp
    moreover have "n - 192 < 32" using a by simp
    ultimately show "n mod 32 = n - 192" using div_mod_digit(2) [of "n - 192" 32 6] by simp }
  { assume a: "224 \<le> n" "n < 240"
    then have "n = 14 * 16 + (n - 224)" by simp
    moreover have "n - 224 < 16" using a by simp
    ultimately show "n mod 16 = n - 224" using div_mod_digit(2) [of "n - 224" 16 14] by simp }
  { assume a: "240 \<le> n" "n < 248"
    then have "n = 30 * 8 + (n - 240)" by simp
    moreover have "n - 240 < 8" using a by simp
    ultimately show "n mod 8 = n - 240" using div_mod_digit(2) [of "n - 240" 8 30] by simp }
  { assume a: "128 \<le> n" "n < 192"
    then have "n = 2 * 64 + (n - 128)" by simp
    moreover have "n - 128 < 64" using a by simp
    ultimately show "n mod 64 = n - 128" using div_mod_digit(2) [of "n - 128" 64 2] by simp }
qed

lemma cont_mod:
  assumes "cont c"
  shows "(of_char c :: nat) mod 64 = of_char c - 128" "128 \<le> (of_char c :: nat)"
    "(of_char c :: nat) - 128 < 64"
  using assms by (auto simp: cont_def lead_mod)

lemma rune2:
  fixes k0 k1 :: nat
  assumes "k1 < 64" and r: "r = k0 * 64 + k1"
  shows "r div 64 = k0" "r mod 64 = k1"
  unfolding r using assms(1) by (rule div_mod_digit)+

lemma rune3:
  fixes k0 k1 k2 :: nat
  assumes "k1 < 64" "k2 < 64" and r: "r = k0 * 4096 + k1 * 64 + k2"
  shows "r div 4096 = k0" "r div 64 mod 64 = k1" "r mod 64 = k2"
proof -
  have e1: "r = k0 * 4096 + (k1 * 64 + k2)" by (simp add: r)
  have "k1 * 64 + k2 < 4096" using assms by simp
  then show "r div 4096 = k0" by (subst e1) (rule div_mod_digit(1))
  have e2: "r = (k0 * 64 + k1) * 64 + k2" by (simp add: r)
  have "r div 64 = k0 * 64 + k1" by (subst e2) (rule div_mod_digit(1) [OF assms(2)])
  then show "r div 64 mod 64 = k1" by (simp only: div_mod_digit(2) [OF assms(1)])
  show "r mod 64 = k2" by (subst e2) (rule div_mod_digit(2) [OF assms(2)])
qed

lemma rune4:
  fixes k0 k1 k2 k3 :: nat
  assumes "k1 < 64" "k2 < 64" "k3 < 64" and r: "r = k0 * 262144 + k1 * 4096 + k2 * 64 + k3"
  shows "r div 262144 = k0" "r div 4096 mod 64 = k1" "r div 64 mod 64 = k2" "r mod 64 = k3"
proof -
  have e1: "r = k0 * 262144 + (k1 * 4096 + k2 * 64 + k3)" by (simp add: r)
  have "k1 * 4096 + k2 * 64 + k3 < 262144" using assms by simp
  then show "r div 262144 = k0" by (subst e1) (rule div_mod_digit(1))
  have e2: "r = (k0 * 64 + k1) * 4096 + (k2 * 64 + k3)" by (simp add: r)
  have "k2 * 64 + k3 < 4096" using assms by simp
  then have "r div 4096 = k0 * 64 + k1" by (subst e2) (rule div_mod_digit(1))
  then show "r div 4096 mod 64 = k1" by (simp only: div_mod_digit(2) [OF assms(1)])
  have e3: "r = ((k0 * 64 + k1) * 64 + k2) * 64 + k3" by (simp add: r)
  have "r div 64 = (k0 * 64 + k1) * 64 + k2" by (subst e3) (rule div_mod_digit(1) [OF assms(3)])
  then show "r div 64 mod 64 = k2" by (simp only: div_mod_digit(2) [OF assms(2)])
  show "r mod 64 = k3" by (subst e3) (rule div_mod_digit(2) [OF assms(3)])
qed

lemma enc2:
  fixes k0 k1 :: nat
  assumes "2 \<le> k0" "k0 < 32" "k1 < 64"
  shows "EncodeRune (k0 * 64 + k1) = [byte (192 + k0), byte (128 + k1)]"
proof -
  define r where "r = k0 * 64 + k1"
  have b: "\<not> r \<le> 0x7F" "r \<le> 0x7FF" using assms by (simp_all add: r_def)
  note d = rune2 [OF assms(3) r_def]
  show ?thesis
    unfolding r_def [symmetric] EncodeRune_def using b by (simp add: d)
qed

lemma enc3:
  fixes k0 k1 k2 :: nat
  assumes "k0 < 16" "k1 < 64" "k2 < 64" "k0 = 0 \<longrightarrow> 32 \<le> k1" "k0 = 13 \<longrightarrow> k1 \<le> 31"
  shows "EncodeRune (k0 * 4096 + k1 * 64 + k2) = [byte (224 + k0), byte (128 + k1), byte (128 + k2)]"
proof -
  define r where "r = k0 * 4096 + k1 * 64 + k2"
  have b1: "\<not> r \<le> 0x7FF"
  proof (cases "k0 = 0")
    case True
    with assms(4) show ?thesis unfolding r_def by simp
  next
    case False
    then have "1 \<le> k0" by simp
    then show ?thesis unfolding r_def by linarith
  qed
  have b2: "r \<le> 0xFFFF" using assms(1-3) unfolding r_def by linarith
  have b3: "\<not> (0xD800 \<le> r \<and> r \<le> 0xDFFF)"
  proof -
    consider "k0 \<le> 12" | "k0 = 13" | "14 \<le> k0" by linarith
    then show ?thesis
    proof cases
      case 1
      with assms(2,3) have "r < 0xD800" unfolding r_def by linarith
      then show ?thesis by simp
    next
      case 2
      with assms(2,3,5) have "r < 0xD800" unfolding r_def by simp
      then show ?thesis by simp
    next
      case 3
      then have "0xDFFF < r" unfolding r_def by linarith
      then show ?thesis by simp
    qed
  qed
  have b4: "\<not> r \<le> 0x7F" "\<not> r > 0x10FFFF" using b1 b2 by simp_all
  note d = rune3 [OF assms(2) assms(3) r_def]
  show ?thesis
    unfolding r_def [symmetric] EncodeRune_def using b1 b2 b3 b4
    by (cases "0xD800 \<le> r") (simp_all add: d encode3_def)
qed

lemma enc4:
  fixes k0 k1 k2 k3 :: nat
  assumes "k0 \<le> 4" "k1 < 64" "k2 < 64" "k3 < 64" "k0 = 0 \<longrightarrow> 16 \<le> k1" "k0 = 4 \<longrightarrow> k1 \<le> 15"
  shows "EncodeRune (k0 * 262144 + k1 * 4096 + k2 * 64 + k3) =
           [byte (240 + k0), byte (128 + k1), byte (128 + k2), byte (128 + k3)]"
proof -
  define r where "r = k0 * 262144 + k1 * 4096 + k2 * 64 + k3"
  have b1: "\<not> r \<le> 0xFFFF"
  proof (cases "k0 = 0")
    case True
    with assms(5) show ?thesis unfolding r_def by simp
  next
    case False
    then have "1 \<le> k0" by simp
    then show ?thesis unfolding r_def by linarith
  qed
  have b2: "\<not> r > 0x10FFFF"
  proof (cases "k0 = 4")
    case True
    with assms(2-4,6) show ?thesis unfolding r_def by simp
  next
    case False
    with assms(1) have "k0 \<le> 3" by simp
    with assms(2-4) show ?thesis unfolding r_def by linarith
  qed
  have b3: "\<not> r \<le> 0x7F" "\<not> r \<le> 0x7FF" "\<not> (0xD800 \<le> r \<and> r \<le> 0xDFFF)" using b1 by simp_all
  note d = rune4 [OF assms(2) assms(3) assms(4) r_def]
  show ?thesis
    unfolding r_def [symmetric] EncodeRune_def using b1 b2 b3 by (simp add: d)
qed

lemma byte_offset: "k \<le> (of_char c :: nat) \<Longrightarrow> byte (k + (of_char c - k)) = c"
  by (simp add: byte_def)

text \<open>Encoding the rune of a valid decode gives back the bytes decoded.\<close>

lemma EncodeRune_DecodeRune:
  assumes "DecodeRune p = (r, sz)" and "\<not> (r = RuneError \<and> sz = 1)" and "p \<noteq> []"
  shows "EncodeRune r = take sz p"
  using assms
proof (cases rule: DecodeRune_validE)
  case (ascii c0 q)
  then show ?thesis by (simp add: EncodeRune_def byte_def)
next
  case (two c0 c1 q)
  define k0 k1 :: nat where "k0 = of_char c0 - 192" and "k1 = of_char c1 - 128"
  have k: "2 \<le> k0" "k0 < 32" "k1 < 64"
    using two(3,4) cont_mod [OF two(5)] by (simp_all add: k0_def k1_def)
  have r: "r = k0 * 64 + k1"
    using two(3,4,6) cont_mod [OF two(5)] by (simp add: lead_mod k0_def k1_def)
  have "EncodeRune r = [byte (192 + k0), byte (128 + k1)]"
    unfolding r by (rule enc2 [OF k])
  also have "\<dots> = [c0, c1]"
    unfolding k0_def k1_def
    using two(3) cont_mod [OF two(5)] by (simp add: byte_offset byte_def)
  finally show ?thesis by (simp add: two(1,2))
next
  case (three c0 c1 c2 q)
  define k0 k1 k2 :: nat where "k0 = of_char c0 - 224" and "k1 = of_char c1 - 128"
    and "k2 = of_char c2 - 128"
  have k0: "k0 < 16" using three(3,4) unfolding k0_def by linarith
  have k12: "k1 < 64" "k2 < 64"
    using cont_mod(3) [OF three(5)] cont_mod(3) [OF three(6)] by (simp_all add: k1_def k2_def)
  have k4: "k0 = 0 \<longrightarrow> 32 \<le> k1"
    using three(3,7) unfolding k0_def k1_def by linarith
  have k5: "k0 = 13 \<longrightarrow> k1 \<le> 31"
    using three(3,8) unfolding k0_def k1_def by linarith
  note k = k0 k12 k4 k5
  have r: "r = k0 * 4096 + k1 * 64 + k2"
    using three(3,4,9) cont_mod [OF three(5)] cont_mod [OF three(6)]
    by (simp add: lead_mod k0_def k1_def k2_def)
  have "EncodeRune r = [byte (224 + k0), byte (128 + k1), byte (128 + k2)]"
    unfolding r by (rule enc3 [OF k])
  also have "\<dots> = [c0, c1, c2]"
    unfolding k0_def k1_def k2_def
    using three(3) cont_mod [OF three(5)] cont_mod [OF three(6)] by (simp add: byte_offset byte_def)
  finally show ?thesis by (simp add: three(1,2))
next
  case (four c0 c1 c2 c3 q)
  define k0 k1 k2 k3 :: nat where "k0 = of_char c0 - 240" and "k1 = of_char c1 - 128"
    and "k2 = of_char c2 - 128" and "k3 = of_char c3 - 128"
  have k0: "k0 \<le> 4" using four(3,4) unfolding k0_def by linarith
  have k123: "k1 < 64" "k2 < 64" "k3 < 64"
    using cont_mod(3) [OF four(5)] cont_mod(3) [OF four(6)] cont_mod(3) [OF four(7)]
    by (simp_all add: k1_def k2_def k3_def)
  have k5: "k0 = 0 \<longrightarrow> 16 \<le> k1"
    using four(3,8) unfolding k0_def k1_def by linarith
  have k6: "k0 = 4 \<longrightarrow> k1 \<le> 15"
    using four(3,9) unfolding k0_def k1_def by linarith
  note k = k0 k123 k5 k6
  have r: "r = k0 * 262144 + k1 * 4096 + k2 * 64 + k3"
    using four(3,4,10) cont_mod [OF four(5)] cont_mod [OF four(6)] cont_mod [OF four(7)]
    by (simp add: lead_mod k0_def k1_def k2_def k3_def)
  have "EncodeRune r = [byte (240 + k0), byte (128 + k1), byte (128 + k2), byte (128 + k3)]"
    unfolding r by (rule enc4 [OF k])
  also have "\<dots> = [c0, c1, c2, c3]"
    unfolding k0_def k1_def k2_def k3_def
    using four(3) cont_mod [OF four(5)] cont_mod [OF four(6)] cont_mod [OF four(7)]
    by (simp add: byte_offset byte_def)
  finally show ?thesis by (simp add: four(1,2))
qed

lemma DecodeRune_valid_length:
  assumes "DecodeRune p = (r, sz)" and "\<not> (r = RuneError \<and> sz = 1)" and "p \<noteq> []"
  shows "sz \<le> length p"
  using assms by (cases rule: DecodeRune_validE) auto

subsection \<open>JSON strings: unquoting what was quoted\<close>

lemma hexval_hex_all: "\<forall>n \<in> set [0..<16]. hexval (hex ! n) = Some n"
  by code_simp

lemma hexval_hex: "n < 16 \<Longrightarrow> hexval (hex ! n) = Some n"
  using hexval_hex_all by simp

lemma getu4_u00:
  assumes "b < 256"
  shows "getu4 (backslash # CHR ''u'' # CHR ''0'' # CHR ''0'' # hex ! (b div 16) # hex ! (b mod 16) # t) = Some b"
proof -
  have h0: "hexval CHR ''0'' = Some 0" by (simp add: hexval_def)
  have "b div 16 < 16" using assms by simp
  then have h1: "hexval (hex ! (b div 16)) = Some (b div 16)" by (rule hexval_hex)
  have h2: "hexval (hex ! (b mod 16)) = Some (b mod 16)" by (rule hexval_hex) simp
  show ?thesis by (simp add: getu4_def h0 h1 h2)
qed

lemma getu4_u202:
  assumes "r = 0x2028 \<or> r = 0x2029"
  shows "getu4 (backslash # CHR ''u'' # CHR ''2'' # CHR ''0'' # CHR ''2'' # hex ! (r mod 16) # t) = Some r"
  using assms by (auto simp: getu4_def hexval_def hex_def)

lemma EncodeRune_ascii: "(of_char c :: nat) < 0x80 \<Longrightarrow> EncodeRune (of_char c) = [c]"
  by (simp add: EncodeRune_def byte_def)

lemma ValidString_ascii:
  "(of_char c :: nat) < 0x80 \<Longrightarrow> ValidString (c # s) = ValidString s"
  by (simp add: DecodeRune_def first_def RuneError_def)

lemma unquote_plain:
  assumes "htmlSafeSet c"
  shows "unquote_loop (c # t) = emit [c] (unquote_loop t)"
  using assms by (simp add: htmlSafeSet_def)

lemma unquote_escaped:
  assumes "(of_char c :: nat) < 0x80" "\<not> htmlSafeSet c"
  shows "unquote_loop
           (backslash #
              (if c = backslash \<or> c = dquote then [c]
               else if c = CHR 0x0A then ''n''
               else if c = CHR 0x0D then ''r''
               else if c = CHR 0x09 then ''t''
               else ''u00'' @ [hex ! (of_char c div 16), hex ! (of_char c mod 16)]) @ t) =
         emit [c] (unquote_loop t)"
proof -
  have g: "getu4 (backslash # CHR ''u'' # CHR ''0'' # CHR ''0'' # hex ! (of_char c div 16) #
                    hex ! (of_char c mod 16) # t) = Some (of_char c)"
    by (rule getu4_u00) simp
  have s: "\<not> IsSurrogate (of_char c)" using assms(1) by (simp add: IsSurrogate_def)
  show ?thesis
    using assms(1) by (simp add: g [unfolded backslash_def] s EncodeRune_ascii dquote_def backslash_def)
qed


lemma emit_Some: "emit bs (Some (t, rest)) = Some (bs @ t, rest)"
  by (simp add: emit_def)

lemma unquote_raw:
  assumes d: "DecodeRune (c # s) = (r, sz)" and v: "\<not> (r = RuneError \<and> sz = 1)"
    and h: "\<not> (of_char c :: nat) < 0x80"
  shows "unquote_loop (take sz (c # s) @ t) = emit (take sz (c # s)) (unquote_loop t)"
proof -
  from DecodeRune_size [OF d] obtain k where sz: "sz = Suc k" by (cases sz) auto
  have t: "take sz (c # s) @ t = c # (take k s @ t)" by (simp add: sz)
  have d': "DecodeRune (c # (take k s @ t)) = (r, sz)"
    using DecodeRune_take_append [OF d v, of t] by (simp add: t)
  have e: "EncodeRune r = take sz (c # s)"
    using EncodeRune_DecodeRune [OF d v] by simp
  have l: "length (take sz (c # s)) = sz"
    using DecodeRune_valid_length [OF d v] by simp
  have c: "c \<noteq> dquote" "c \<noteq> backslash" "\<not> (of_char c :: nat) < 0x20"
    using h by (auto simp: dquote_def backslash_def)
  have "unquote_loop (c # (take k s @ t)) =
          emit (EncodeRune r) (unquote_loop (drop sz (c # (take k s @ t))))"
    using c h by (simp add: d' unquote_loop.simps)
  moreover have "drop sz (c # (take k s @ t)) = t"
    using l by (simp add: sz)
  ultimately have "unquote_loop (c # (take k s @ t)) = emit (EncodeRune r) (unquote_loop t)"
    by (simp only:)
  then show ?thesis
    unfolding t e .
qed

lemma unquote_u202:
  assumes d: "DecodeRune (c # s) = (r, sz)" and v: "\<not> (r = RuneError \<and> sz = 1)"
    and r: "r = 0x2028 \<or> r = 0x2029"
  shows "unquote_loop (backslash # ''u202'' @ [hex ! (r mod 16)] @ t) =
           emit (take sz (c # s)) (unquote_loop t)"
proof -
  have g: "getu4 (backslash # CHR ''u'' # CHR ''2'' # CHR ''0'' # CHR ''2'' # hex ! (r mod 16) # t) = Some r"
    by (rule getu4_u202 [OF r])
  have s: "\<not> IsSurrogate r" using r by (auto simp: IsSurrogate_def)
  have e: "EncodeRune r = take sz (c # s)"
    using EncodeRune_DecodeRune [OF d v] by simp
  show ?thesis
    by (simp add: g [unfolded backslash_def] s e dquote_def backslash_def)
qed

declare unquote_loop.simps [simp del]

theorem unquote_encodeState_string:
  "ValidString s \<Longrightarrow> unquote_loop (encodeState_string_loop s @ dquote # rest) = Some (s, rest)"
proof (induction s rule: encodeState_string_loop.induct)
  case 1
  show ?case by (simp add: unquote_loop.simps)
next
  case (2 c s)
  show ?case
  proof (cases "(of_char c :: nat) < 0x80")
    case True
    have v: "ValidString s" using "2.prems" unfolding ValidString_ascii [OF True] .
    show ?thesis
    proof (cases "htmlSafeSet c")
      case safe: True
      from "2.IH"(1) [OF refl True safe v] True safe show ?thesis
        by (simp add: unquote_plain emit_Some Let_def)
    next
      case unsafe: False
      from "2.IH"(2) [OF refl True unsafe v]
      have ih: "unquote_loop (encodeState_string_loop s @ dquote # rest) = Some (s, rest)" .
      have "encodeState_string_loop (c # s) @ dquote # rest =
              backslash #
              (if c = backslash \<or> c = dquote then [c]
               else if c = CHR 0x0A then ''n''
               else if c = CHR 0x0D then ''r''
               else if c = CHR 0x09 then ''t''
               else ''u00'' @ [hex ! (of_char c div 16), hex ! (of_char c mod 16)]) @
              (encodeState_string_loop s @ dquote # rest)"
        using True unsafe by (simp add: Let_def)
      then show ?thesis
        by (simp only: unquote_escaped [OF True unsafe] ih emit_Some) simp
    qed
  next
    case False
    obtain r sz where d: "DecodeRune (c # s) = (r, sz)" by (cases "DecodeRune (c # s)")
    from "2.prems" d have v: "\<not> (r = RuneError \<and> sz = 1)" and vs: "ValidString (drop sz (c # s))"
      by simp_all
    show ?thesis
    proof (cases "r = 0x2028 \<or> r = 0x2029")
      case u: True
      from "2.IH"(4) [OF refl False d [symmetric] v u vs]
      have ih: "unquote_loop (encodeState_string_loop (drop sz (c # s)) @ dquote # rest) =
                  Some (drop sz (c # s), rest)" .
      have "encodeState_string_loop (c # s) @ dquote # rest =
              backslash # ''u202'' @ [hex ! (r mod 16)] @
              (encodeState_string_loop (drop sz (c # s)) @ dquote # rest)"
        using False d v u by (simp add: Let_def)
      then show ?thesis
        by (simp only: unquote_u202 [OF d v u] ih emit_Some append_take_drop_id)
    next
      case nu: False
      from "2.IH"(5) [OF refl False d [symmetric] v nu vs]
      have ih: "unquote_loop (encodeState_string_loop (drop sz (c # s)) @ dquote # rest) =
                  Some (drop sz (c # s), rest)" .
      have "encodeState_string_loop (c # s) @ dquote # rest =
              take sz (c # s) @ (encodeState_string_loop (drop sz (c # s)) @ dquote # rest)"
        using False d v nu by (simp add: Let_def)
      then show ?thesis
        by (simp only: unquote_raw [OF d v False] ih emit_Some append_take_drop_id)
    qed
  qed
qed

subsection \<open>The handshake request in the state\<close>

lemma skip_space_nonspace: "\<not> isSpace c \<Longrightarrow> skip_space (c # t) = c # t"
  by (simp add: skip_space_def)

lemma nonspace:
  "\<not> isSpace CHR ''{''" "\<not> isSpace CHR ''}''" "\<not> isSpace dquote" "\<not> isSpace CHR '':''"
  "\<not> isSpace CHR '',''"
  by (simp_all add: isSpace_def dquote_def)

lemma unquote_key_RedirectURL:
  "unquote_loop (''RedirectURL'' @ dquote # t) = Some (''RedirectURL'', t)"
  by (simp add: unquote_loop.simps dquote_def backslash_def emit_def)

lemma unquote_key_SessionID:
  "unquote_loop (''SessionID'' @ dquote # t) = Some (''SessionID'', t)"
  by (simp add: unquote_loop.simps dquote_def backslash_def emit_def)

lemma parse_string_value:
  assumes "unquote_loop (e @ dquote # t) = Some (v, t)"
  shows "parse_value (Suc n) d (dquote # e @ dquote # t) = Some (JString v, t)"
  using assms
  by (simp add: skip_space_nonspace nonspace) (simp add: dquote_def)

lemma parse_object_open:
  "parse_value (Suc n) 0 (CHR ''{'' # dquote # t) =
     (case parse_members n (Suc 0) (dquote # t) of
        None \<Rightarrow> None
      | Some (ms, r) \<Rightarrow> Some (JObject ms, r))"
  by (simp add: skip_space_nonspace nonspace maxNestingDepth_def del: parse_members.simps)
     (simp add: dquote_def)

text \<open>
  The object that \<open>json_Marshal_AuthCode\<close> writes, with any two string literals in it,
  parses into its two members.
\<close>

lemma parse_AuthCode_object:
  assumes u: "\<And>t. unquote_loop (e1 @ dquote # t) = Some (v1, t)"
    and s: "\<And>t. unquote_loop (e2 @ dquote # t) = Some (v2, t)"
  shows "parse_value (Suc (Suc (Suc (Suc m)))) 0
           (CHR ''{'' # dquote # ''RedirectURL'' @ dquote # CHR '':'' #
              dquote # e1 @ dquote # CHR '','' #
              dquote # ''SessionID'' @ dquote # CHR '':'' #
              dquote # e2 @ dquote # ''}'') =
         Some (JObject [(''RedirectURL'', JString v1), (''SessionID'', JString v2)], [])"
proof -
  have m2: "parse_members (Suc (Suc m)) (Suc 0)
              (dquote # ''SessionID'' @ dquote # CHR '':'' # dquote # e2 @ dquote # ''}'') =
            Some ([(''SessionID'', JString v2)], [])"
    using unquote_key_SessionID
    by (simp add: skip_space_nonspace nonspace parse_string_value [OF s] del: parse_value.simps)
  have m1: "parse_members (Suc (Suc (Suc m))) (Suc 0)
              (dquote # ''RedirectURL'' @ dquote # CHR '':'' #
               dquote # e1 @ dquote # CHR '','' #
               dquote # ''SessionID'' @ dquote # CHR '':'' # dquote # e2 @ dquote # ''}'') =
            Some ([(''RedirectURL'', JString v1), (''SessionID'', JString v2)], [])"
    using unquote_key_RedirectURL m2
    by (simp add: skip_space_nonspace nonspace parse_string_value [OF u]
        del: parse_value.simps parse_members.simps(2))
       (simp add: parse_members.simps(2) [of "Suc (Suc m)"] skip_space_nonspace nonspace
          parse_string_value [OF u] del: parse_value.simps)
  show ?thesis
    by (simp only: parse_object_open m1 option.case prod.case)
qed

lemma marshal_AuthCode:
  "json_Marshal_AuthCode code =
     Inr (CHR ''{'' # dquote # ''RedirectURL'' @ dquote # CHR '':'' #
            dquote # encodeState_string_loop (AuthCode.RedirectURL code) @ dquote # CHR '','' #
            dquote # ''SessionID'' @ dquote # CHR '':'' #
            dquote # encodeState_string_loop (AuthCode.SessionID code) @ dquote # ''}'')"
  by (simp add: json_Marshal_AuthCode_def marshal_object_def AuthCode_names_def
      encodeState_string_def)

lemma unmarshal_AuthCode_object:
  assumes u: "\<And>t. unquote_loop (e1 @ dquote # t) = Some (v1, t)"
    and s: "\<And>t. unquote_loop (e2 @ dquote # t) = Some (v2, t)"
  shows "json_Unmarshal_AuthCode eqf
           (CHR ''{'' # dquote # ''RedirectURL'' @ dquote # CHR '':'' #
              dquote # e1 @ dquote # CHR '','' #
              dquote # ''SessionID'' @ dquote # CHR '':'' #
              dquote # e2 @ dquote # ''}'')
           \<lparr>AuthCode.RedirectURL = [], AuthCode.SessionID = []\<rparr> =
         Inr \<lparr>AuthCode.RedirectURL = v1, AuthCode.SessionID = v2\<rparr>"
proof -
  let ?data = "CHR ''{'' # dquote # ''RedirectURL'' @ dquote # CHR '':'' #
              dquote # e1 @ dquote # CHR '','' #
              dquote # ''SessionID'' @ dquote # CHR '':'' #
              dquote # e2 @ dquote # ''}''"
  obtain m where m: "2 * length ?data + 2 = Suc (Suc (Suc (Suc m)))"
    by (simp add: numeral_eq_Suc)
  have p: "json_parse ?data =
             Some (JObject [(''RedirectURL'', JString v1), (''SessionID'', JString v2)])"
    unfolding json_parse_def m parse_AuthCode_object [OF u s]
    by (simp add: skip_space_def)
  have f: "field_index eqf AuthCode_names ''RedirectURL'' = Some 0"
    "field_index eqf AuthCode_names ''SessionID'' = Some 1"
    by (simp_all add: AuthCode_names_def field_index_def)
  have a: "assign_fields eqf AuthCode_names
             [(''RedirectURL'', JString v1), (''SessionID'', JString v2)] ([[], []], False) =
           ([v1, v2], False)"
    by (simp add: f)
  show ?thesis
    unfolding json_Unmarshal_AuthCode_def unmarshal_strings_def p
    by (simp add: a del: assign_fields.simps)
qed

text \<open>
  The round trip of the state, for any two strings: what comes back is what the string
  literals of the JSON decode to.
\<close>

lemma callback_authCode_authorize_state:
  assumes u: "\<And>t. unquote_loop (encodeState_string_loop (AuthCode.RedirectURL code) @ dquote # t) =
                  Some (v1, t)"
    and s: "\<And>t. unquote_loop (encodeState_string_loop (AuthCode.SessionID code) @ dquote # t) =
                  Some (v2, t)"
  shows "\<exists>state. authorize_state code = Inr state \<and>
           callback_authCode eqf state = Inr \<lparr>AuthCode.RedirectURL = v1, AuthCode.SessionID = v2\<rparr>"
proof -
  obtain data where m: "json_Marshal_AuthCode code = Inr data"
    and d: "json_Unmarshal_AuthCode eqf data \<lparr>AuthCode.RedirectURL = [], AuthCode.SessionID = []\<rparr> =
              Inr \<lparr>AuthCode.RedirectURL = v1, AuthCode.SessionID = v2\<rparr>"
    using marshal_AuthCode [of code] unmarshal_AuthCode_object [OF u s, of eqf] by blast
  have "authorize_state code = Inr (EncodeToString StdEncoding data)"
    by (simp add: authorize_state_def m)
  moreover have "callback_authCode eqf (EncodeToString StdEncoding data) =
                   Inr \<lparr>AuthCode.RedirectURL = v1, AuthCode.SessionID = v2\<rparr>"
    by (simp add: callback_authCode_def base64_Std_roundtrip d)
  ultimately show ?thesis by blast
qed

lemma handleAuthorize_state:
  assumes "Values_Get (URL_Query r) ''u'' \<noteq> []" "Values_Get (URL_Query r) ''s'' \<noteq> []"
  shows "\<exists>state.
           authorize_state \<lparr>AuthCode.RedirectURL = Values_Get (URL_Query r) ''u'',
                            AuthCode.SessionID = Values_Get (URL_Query r) ''s''\<rparr> = Inr state \<and>
           Redirect (handleAuthorize h NewResponseWriter r) =
             Some (oidc_AuthCodeURL h [''openid'', ''profile'', ''email'', ''offline_access''] state)"
  using assms
  by (simp add: handleAuthorize_def authorize_state_def Let_def json_Marshal_AuthCode_def http_defs)

lemma ValidString_abc123: "ValidString ''abc123''"
  by (simp add: DecodeRune_def first_def RuneError_def)

lemma ValidString_consumer: "ValidString ''https://consumer.example/cb''"
  by (simp add: DecodeRune_def first_def RuneError_def)

lemma unquote_replacement:
  "unquote_loop (encodeState_string_loop [CHR 0xFF] @ dquote # t) =
     Some ([CHR 0xEF, CHR 0xBF, CHR 0xBD], t)"
proof -
  have d: "DecodeRune [CHR 0xFF] = (RuneError, 1)"
    by (simp add: DecodeRune_def first_def)
  have e: "encodeState_string_loop [CHR 0xFF] = backslash # ''ufffd''"
    by (simp add: d Let_def)
  have g: "getu4 (backslash # ''ufffd'' @ dquote # t) = Some RuneError"
    by (simp add: getu4_def hexval_def RuneError_def)
  have r: "EncodeRune RuneError = [CHR 0xEF, CHR 0xBF, CHR 0xBD]"
    by (simp add: EncodeRune_def RuneError_def encode3_def byte_def char_of_eq_iff take_bit_eq_mod)
  have s: "\<not> IsSurrogate RuneError" by (simp add: IsSurrogate_def RuneError_def)
  show ?thesis
    unfolding e
    by (simp add: g [unfolded backslash_def dquote_def, simplified] s r unquote_loop.simps
        dquote_def backslash_def emit_def)
qed

text \<open>
  C1, as stated: every handshake request with a non-empty redirect URL and session id
  comes back from the state unchanged. It fails for a string that is not valid UTF-8
  (a query can carry any bytes, percent-encoded): \<^verbatim>\<open>json.Marshal\<close> writes the byte
  \<^verbatim>\<open>0xff\<close> as the replacement character, and the three bytes of that character come
  back.
\<close>

theorem state_round_trip_invalid_utf8:
  "\<forall>eqf. AuthCode.RedirectURL \<lparr>AuthCode.RedirectURL = [CHR 0xFF], AuthCode.SessionID = ''abc123''\<rparr> \<noteq> [] \<and>
         AuthCode.SessionID \<lparr>AuthCode.RedirectURL = [CHR 0xFF], AuthCode.SessionID = ''abc123''\<rparr> \<noteq> [] \<and>
         \<not> state_round_trip eqf \<lparr>AuthCode.RedirectURL = [CHR 0xFF], AuthCode.SessionID = ''abc123''\<rparr>"
proof
  fix eqf
  let ?code = "\<lparr>AuthCode.RedirectURL = [CHR 0xFF], AuthCode.SessionID = ''abc123''\<rparr>"
  have u: "\<And>t. unquote_loop (encodeState_string_loop (AuthCode.RedirectURL ?code) @ dquote # t) =
                Some ([CHR 0xEF, CHR 0xBF, CHR 0xBD], t)"
    by (simp only: AuthCode.simps unquote_replacement)
  have s: "\<And>t. unquote_loop (encodeState_string_loop (AuthCode.SessionID ?code) @ dquote # t) =
                Some (''abc123'', t)"
    by (simp only: AuthCode.simps unquote_encodeState_string [OF ValidString_abc123])
  from callback_authCode_authorize_state [OF u s, of eqf]
  show "AuthCode.RedirectURL ?code \<noteq> [] \<and> AuthCode.SessionID ?code \<noteq> [] \<and>
        \<not> state_round_trip eqf ?code"
    by (auto simp: state_round_trip_def)
qed

text \<open>
  C1, amended: every handshake request whose redirect URL and session id are non-empty
  and valid UTF-8 comes back unchanged from the state that \<open>handleAuthorize\<close> makes,
  decoded the way \<open>handleCallback\<close> does it.
\<close>

theorem state_round_trip_utf8:
  assumes "AuthCode.RedirectURL code \<noteq> []" "AuthCode.SessionID code \<noteq> []"
    and "ValidString (AuthCode.RedirectURL code)" "ValidString (AuthCode.SessionID code)"
  shows "state_round_trip eqf code"
  using callback_authCode_authorize_state
          [OF unquote_encodeState_string [OF assms(3)] unquote_encodeState_string [OF assms(4)],
           of eqf]
  by (auto simp: state_round_trip_def)

theorem state_round_trip_utf8_witness:
  "AuthCode.RedirectURL \<lparr>AuthCode.RedirectURL = ''https://consumer.example/cb'',
                         AuthCode.SessionID = ''abc123''\<rparr> \<noteq> [] \<and>
   AuthCode.SessionID \<lparr>AuthCode.RedirectURL = ''https://consumer.example/cb'',
                       AuthCode.SessionID = ''abc123''\<rparr> \<noteq> [] \<and>
   ValidString ''https://consumer.example/cb'' \<and> ValidString ''abc123'' \<and>
   state_round_trip (\<lambda>name key. False)
     \<lparr>AuthCode.RedirectURL = ''https://consumer.example/cb'', AuthCode.SessionID = ''abc123''\<rparr>"
  using state_round_trip_utf8
          [of "\<lparr>AuthCode.RedirectURL = ''https://consumer.example/cb'',
                AuthCode.SessionID = ''abc123''\<rparr>" "\<lambda>name key. False"]
        ValidString_consumer ValidString_abc123
  by simp

section \<open>The session cookie of a successful callback\<close>

lemma ValidString_a_b: "ValidString ''a b''"
  by (simp add: DecodeRune_def first_def RuneError_def)

lemma example_authorize_state_abc123:
  "authorize_state \<lparr>AuthCode.RedirectURL = ''https://consumer.example/cb'',
                    AuthCode.SessionID = ''abc123''\<rparr> =
   Inr ''eyJSZWRpcmVjdFVSTCI6Imh0dHBzOi8vY29uc3VtZXIuZXhhbXBsZS9jYiIsIlNlc3Npb25JRCI6ImFiYzEyMyJ9''"
proof -
  have m: "json_Marshal_AuthCode \<lparr>AuthCode.RedirectURL = ''https://consumer.example/cb'',
                                  AuthCode.SessionID = ''abc123''\<rparr> =
           Inr (CHR ''{'' # dquote # ''RedirectURL'' @ dquote # CHR '':'' #
                dquote # ''https://consumer.example/cb'' @ dquote # CHR '','' #
                dquote # ''SessionID'' @ dquote # CHR '':'' # dquote # ''abc123'' @ dquote # ''}'')"
    unfolding marshal_AuthCode
    by (simp add: htmlSafeSet_def dquote_def backslash_def)
  show ?thesis
    unfolding authorize_state_def m
    by (simp add: dquote_def StdEncoding_def encodeStd_def)
qed

lemma example_authorize_state_a_b:
  "authorize_state \<lparr>AuthCode.RedirectURL = ''https://consumer.example/cb'',
                    AuthCode.SessionID = ''a b''\<rparr> =
   Inr ''eyJSZWRpcmVjdFVSTCI6Imh0dHBzOi8vY29uc3VtZXIuZXhhbXBsZS9jYiIsIlNlc3Npb25JRCI6ImEgYiJ9''"
proof -
  have m: "json_Marshal_AuthCode \<lparr>AuthCode.RedirectURL = ''https://consumer.example/cb'',
                                  AuthCode.SessionID = ''a b''\<rparr> =
           Inr (CHR ''{'' # dquote # ''RedirectURL'' @ dquote # CHR '':'' #
                dquote # ''https://consumer.example/cb'' @ dquote # CHR '','' #
                dquote # ''SessionID'' @ dquote # CHR '':'' # dquote # ''a b'' @ dquote # ''}'')"
    unfolding marshal_AuthCode
    by (simp add: htmlSafeSet_def dquote_def backslash_def)
  show ?thesis
    unfolding authorize_state_def m
    by (simp add: dquote_def StdEncoding_def encodeStd_def)
qed

lemma example_state_abc123:
  "callback_authCode eqf
     ''eyJSZWRpcmVjdFVSTCI6Imh0dHBzOi8vY29uc3VtZXIuZXhhbXBsZS9jYiIsIlNlc3Npb25JRCI6ImFiYzEyMyJ9'' =
   Inr \<lparr>AuthCode.RedirectURL = ''https://consumer.example/cb'', AuthCode.SessionID = ''abc123''\<rparr>"
  using callback_authCode_authorize_state
          [of "\<lparr>AuthCode.RedirectURL = ''https://consumer.example/cb'',
                AuthCode.SessionID = ''abc123''\<rparr>"
              "''https://consumer.example/cb''" "''abc123''" eqf]
        unquote_encodeState_string [OF ValidString_consumer]
        unquote_encodeState_string [OF ValidString_abc123]
  unfolding example_authorize_state_abc123
  by simp

lemma example_state_a_b:
  "callback_authCode eqf
     ''eyJSZWRpcmVjdFVSTCI6Imh0dHBzOi8vY29uc3VtZXIuZXhhbXBsZS9jYiIsIlNlc3Npb25JRCI6ImEgYiJ9'' =
   Inr \<lparr>AuthCode.RedirectURL = ''https://consumer.example/cb'', AuthCode.SessionID = ''a b''\<rparr>"
  using callback_authCode_authorize_state
          [of "\<lparr>AuthCode.RedirectURL = ''https://consumer.example/cb'',
                AuthCode.SessionID = ''a b''\<rparr>"
              "''https://consumer.example/cb''" "''a b''" eqf]
        unquote_encodeState_string [OF ValidString_consumer]
        unquote_encodeState_string [OF ValidString_a_b]
  unfolding example_authorize_state_a_b
  by simp

lemmas cookie_name_eval =
  isCookieNameValid_def strings_IndexFunc_def isNotToken_def IsTokenRune_def isTokenTable_def
  DecodeRune_def first_def

lemma example_name_abc123: "isCookieNameValid ''kube-bind-abc123''"
  by (simp add: cookie_name_eval)

lemma example_name_a_b: "\<not> isCookieNameValid ''kube-bind-a b''"
  by (simp add: cookie_name_eval)

lemma example_callback:
  "handleCallback example_handler NewResponseWriter
     (example_request
        [(''code'', ''good''),
         (''state'',
          ''eyJSZWRpcmVjdFVSTCI6Imh0dHBzOi8vY29uc3VtZXIuZXhhbXBsZS9jYiIsIlNlc3Npb25JRCI6ImFiYzEyMyJ9'')]
        []) =
   http_Redirect ''/resources?s=abc123'' StatusFound
     (http_SetCookie
        \<lparr>Name = ''kube-bind-abc123'', Value = ''https://consumer.example/cb'', Path = ''/'',
         Expires = 1 * Hour, MaxAge = 0, Secure = False, HttpOnly = True\<rparr>
        NewResponseWriter)"
  unfolding handleCallback_cases
  by (simp add: example_request_def Values_Get_def callback_code_def callback_state_def
      example_state_abc123 example_handler_def example_parseJWT)

lemma example_callback_a_b:
  "handleCallback example_handler NewResponseWriter
     (example_request
        [(''code'', ''good''),
         (''state'',
          ''eyJSZWRpcmVjdFVSTCI6Imh0dHBzOi8vY29uc3VtZXIuZXhhbXBsZS9jYiIsIlNlc3Npb25JRCI6ImEgYiJ9'')]
        []) =
   http_Redirect ''/resources?s=a b'' StatusFound
     (http_SetCookie
        \<lparr>Name = ''kube-bind-a b'', Value = ''https://consumer.example/cb'', Path = ''/'',
         Expires = 1 * Hour, MaxAge = 0, Secure = False, HttpOnly = True\<rparr>
        NewResponseWriter)"
  unfolding handleCallback_cases
  by (simp add: example_request_def Values_Get_def callback_code_def callback_state_def
      example_state_a_b example_handler_def example_parseJWT)

text \<open>
  C5, as stated: every successful callback sets the session cookie, named
  \<^verbatim>\<open>kube-bind-\<close> plus the session id. It fails for a session id that is not made of
  token characters: the state below holds the session id \<^verbatim>\<open>a b\<close>; the callback
  succeeds (status 302, redirect to the resource page of that session), and
  \<^verbatim>\<open>http.SetCookie\<close> drops the cookie, whose name \<^verbatim>\<open>kube-bind-a b\<close> has a space.
\<close>

theorem handleCallback_no_cookie:
  "Status (handleCallback example_handler NewResponseWriter
     (example_request
        [(''code'', ''good''),
         (''state'',
          ''eyJSZWRpcmVjdFVSTCI6Imh0dHBzOi8vY29uc3VtZXIuZXhhbXBsZS9jYiIsIlNlc3Npb25JRCI6ImEgYiJ9'')]
        [])) = StatusFound \<and>
   Redirect (handleCallback example_handler NewResponseWriter
     (example_request
        [(''code'', ''good''),
         (''state'',
          ''eyJSZWRpcmVjdFVSTCI6Imh0dHBzOi8vY29uc3VtZXIuZXhhbXBsZS9jYiIsIlNlc3Npb25JRCI6ImEgYiJ9'')]
        [])) = Some ''/resources?s=a b'' \<and>
   callback_authCode (equalFold example_handler)
     ''eyJSZWRpcmVjdFVSTCI6Imh0dHBzOi8vY29uc3VtZXIuZXhhbXBsZS9jYiIsIlNlc3Npb25JRCI6ImEgYiJ9'' =
     Inr \<lparr>AuthCode.RedirectURL = ''https://consumer.example/cb'', AuthCode.SessionID = ''a b''\<rparr> \<and>
   SetCookies (handleCallback example_handler NewResponseWriter
     (example_request
        [(''code'', ''good''),
         (''state'',
          ''eyJSZWRpcmVjdFVSTCI6Imh0dHBzOi8vY29uc3VtZXIuZXhhbXBsZS9jYiIsIlNlc3Npb25JRCI6ImEgYiJ9'')]
        [])) = []"
  unfolding example_callback_a_b example_state_a_b
  by (simp add: http_SetCookie_def example_name_a_b http_Redirect_def WriteHeader_def
      NewResponseWriter_def StatusFound_def)

text \<open>
  C5, amended: on every successful callback (status 302) the session cookie is the one
  \<^verbatim>\<open>cookie.MakeCookie\<close> makes for the name \<^verbatim>\<open>kube-bind-\<close> plus the session id of the
  decoded state, for the encoded session state and for the duration of one hour, whatever
  the expiry of the token that the identity provider returned; the response carries
  that cookie, and no other, if the name of the cookie is a valid cookie name, and no
  cookie at all otherwise. The handler \<open>h\<close> is arbitrary.
\<close>

theorem handleCallback_cookie:
  "Status (handleCallback h NewResponseWriter r) = StatusFound \<Longrightarrow>
     \<exists>authCode token jwt b.
       callback_authCode (equalFold h) (callback_state r) = Inr authCode \<and>
       oidc_Exchange h (callback_code r) = Inr token \<and>
       SessionState_Encode h
         \<lparr>CreatedAt = time_Now h, ExpiresOn = Expiry token,
          AccessToken = Token.AccessToken token, IDToken = jwt,
          RefreshToken = Token.RefreshToken token,
          RedirectURL = AuthCode.RedirectURL authCode,
          SessionID = AuthCode.SessionID authCode\<rparr> = Inr b \<and>
       SetCookies (handleCallback h NewResponseWriter r) =
         (if isCookieNameValid
               (Name (cookie_MakeCookie h r (''kube-bind-'' @ AuthCode.SessionID authCode) b (1 * Hour)))
          then [cookie_MakeCookie h r (''kube-bind-'' @ AuthCode.SessionID authCode) b (1 * Hour)]
          else []) \<and>
       Hour = 3600 * 1000000000"
  unfolding handleCallback_cases
  by (auto simp: http_defs Hour_def split: sum.splits option.splits if_splits)

theorem handleCallback_cookie_witness:
  "Status (handleCallback example_handler NewResponseWriter
     (example_request
        [(''code'', ''good''),
         (''state'',
          ''eyJSZWRpcmVjdFVSTCI6Imh0dHBzOi8vY29uc3VtZXIuZXhhbXBsZS9jYiIsIlNlc3Npb25JRCI6ImFiYzEyMyJ9'')]
        [])) = StatusFound \<and>
   callback_authCode (equalFold example_handler)
     ''eyJSZWRpcmVjdFVSTCI6Imh0dHBzOi8vY29uc3VtZXIuZXhhbXBsZS9jYiIsIlNlc3Npb25JRCI6ImFiYzEyMyJ9'' =
     Inr \<lparr>AuthCode.RedirectURL = ''https://consumer.example/cb'', AuthCode.SessionID = ''abc123''\<rparr> \<and>
   oidc_Exchange example_handler ''good'' =
     Inr \<lparr>Token.AccessToken = ''at'', Token.RefreshToken = ''rt'', Expiry = 7,
          Extra_id_token = Some ''h.e30.s''\<rparr> \<and>
   isCookieNameValid ''kube-bind-abc123'' \<and>
   SetCookies (handleCallback example_handler NewResponseWriter
     (example_request
        [(''code'', ''good''),
         (''state'',
          ''eyJSZWRpcmVjdFVSTCI6Imh0dHBzOi8vY29uc3VtZXIuZXhhbXBsZS9jYiIsIlNlc3Npb25JRCI6ImFiYzEyMyJ9'')]
        [])) =
     [\<lparr>Name = ''kube-bind-abc123'', Value = ''https://consumer.example/cb'', Path = ''/'',
       Expires = 3600 * 1000000000, MaxAge = 0, Secure = False, HttpOnly = True\<rparr>]"
proof -
  let ?r = "example_request
        [(''code'', ''good''),
         (''state'',
          ''eyJSZWRpcmVjdFVSTCI6Imh0dHBzOi8vY29uc3VtZXIuZXhhbXBsZS9jYiIsIlNlc3Npb25JRCI6ImFiYzEyMyJ9'')]
        []"
  have s: "Status (handleCallback example_handler NewResponseWriter ?r) = StatusFound"
    unfolding example_callback
    by (simp add: http_SetCookie_def http_Redirect_def WriteHeader_def NewResponseWriter_def
        StatusFound_def)
  have cs: "callback_state ?r =
      ''eyJSZWRpcmVjdFVSTCI6Imh0dHBzOi8vY29uc3VtZXIuZXhhbXBsZS9jYiIsIlNlc3Npb25JRCI6ImFiYzEyMyJ9''"
    by (simp add: callback_state_def example_request_def Values_Get_def)
  have cc: "callback_code ?r = ''good''"
    by (simp add: callback_code_def example_request_def Values_Get_def)
  have x: "oidc_Exchange example_handler ''good'' =
     Inr \<lparr>Token.AccessToken = ''at'', Token.RefreshToken = ''rt'', Expiry = 7,
          Extra_id_token = Some ''h.e30.s''\<rparr>"
    by (simp add: example_handler_def)
  have m: "\<And>name v ttl. cookie_MakeCookie example_handler ?r name v ttl =
          \<lparr>Name = name, Value = v, Path = ''/'', Expires = ttl, MaxAge = 0, Secure = False,
           HttpOnly = True\<rparr>"
    by (simp add: example_handler_def)
  have e: "\<And>st. SessionState_Encode example_handler st = Inr (SessionState.RedirectURL st)"
    by (simp add: example_handler_def)
  from handleCallback_cookie [OF s]
  obtain authCode token jwt b where
    a: "callback_authCode (equalFold example_handler) (callback_state ?r) = Inr authCode"
    and t: "oidc_Exchange example_handler (callback_code ?r) = Inr token"
    and b: "SessionState_Encode example_handler
         \<lparr>CreatedAt = time_Now example_handler, ExpiresOn = Expiry token,
          AccessToken = Token.AccessToken token, IDToken = jwt,
          RefreshToken = Token.RefreshToken token,
          RedirectURL = AuthCode.RedirectURL authCode,
          SessionID = AuthCode.SessionID authCode\<rparr> = Inr b"
    and c: "SetCookies (handleCallback example_handler NewResponseWriter ?r) =
         (if isCookieNameValid
               (Name (cookie_MakeCookie example_handler ?r
                        (''kube-bind-'' @ AuthCode.SessionID authCode) b (1 * Hour)))
          then [cookie_MakeCookie example_handler ?r
                  (''kube-bind-'' @ AuthCode.SessionID authCode) b (1 * Hour)]
          else [])"
    by blast
  from a have a': "authCode = \<lparr>AuthCode.RedirectURL = ''https://consumer.example/cb'',
                               AuthCode.SessionID = ''abc123''\<rparr>"
    unfolding cs example_state_abc123 by simp
  from b have b': "b = ''https://consumer.example/cb''"
    unfolding e a' by simp
  from c have "SetCookies (handleCallback example_handler NewResponseWriter ?r) =
     [\<lparr>Name = ''kube-bind-abc123'', Value = ''https://consumer.example/cb'', Path = ''/'',
       Expires = 3600 * 1000000000, MaxAge = 0, Secure = False, HttpOnly = True\<rparr>]"
    unfolding m a' b' by (simp add: example_name_abc123 Hour_def)
  with s x example_name_abc123 example_state_abc123 [of "equalFold example_handler"]
  show ?thesis by blast
qed

end
